theory Spec2Isabelle
  imports Main "HOL-Library.Word"
begin

unbundle bit_operations_syntax

section \<open>Bytes, buffers and JavaScript strings\<close>

text \<open>
  A Node \<open>Buffer\<close> is a list of bytes. A JavaScript string is a list of characters; the
  characters of the model are the code units 0..255, which covers every character the
  DUID code produces or recognises (hex digits, the colon, white space).
\<close>

type_synonym byte = "8 word"
type_synonym buffer = "byte list"

text \<open>The value of a hexadecimal digit, in either letter case; \<open>None\<close> for any other character.\<close>

definition unhex :: "char \<Rightarrow> nat option" where
  "unhex c =
     (let n = (of_char c :: nat) in
      if 48 \<le> n \<and> n \<le> 57 then Some (n - 48)
      else if 65 \<le> n \<and> n \<le> 70 then Some (n - 55)
      else if 97 \<le> n \<and> n \<le> 102 then Some (n - 87)
      else None)"

definition is_hex_digit :: "char \<Rightarrow> bool" where
  "is_hex_digit c = (unhex c \<noteq> None)"

text \<open>The lower-case digit of a value below 16, as \<open>Number.prototype.toString(16)\<close> writes it.\<close>

definition hexdigit :: "nat \<Rightarrow> char" where
  "hexdigit n = (if n < 10 then char_of (48 + n) else char_of (87 + n))"

text \<open>\<open>buf.toString('hex')\<close>: two lower-case digits per byte.\<close>

fun toString_hex :: "buffer \<Rightarrow> string" where
  "toString_hex [] = []"
| "toString_hex (b # bs) =
     hexdigit (unat b div 16) # hexdigit (unat b mod 16) # toString_hex bs"

text \<open>
  \<open>Buffer.from(s, 'hex')\<close>: the string is read two characters at a time; decoding stops
  at the first pair that is incomplete or holds a character that is not a hex digit, and
  the bytes decoded so far are the result. It never throws.
\<close>

fun Buffer_from_hex :: "string \<Rightarrow> buffer" where
  "Buffer_from_hex (a # b # cs) =
     (case unhex a of
        None \<Rightarrow> []
      | Some x \<Rightarrow>
          (case unhex b of
             None \<Rightarrow> []
           | Some y \<Rightarrow> word_of_nat (16 * x + y) # Buffer_from_hex cs))"
| "Buffer_from_hex _ = []"

text \<open>
  \<open>toUpperCase\<close> and \<open>toLowerCase\<close> on the letters a..z and A..Z. The code applies them
  only to hex text and MAC text, where no other letter occurs.
\<close>

definition toUpperCase_char :: "char \<Rightarrow> char" where
  "toUpperCase_char c =
     (let n = (of_char c :: nat) in if 97 \<le> n \<and> n \<le> 122 then char_of (n - 32) else c)"

definition toLowerCase_char :: "char \<Rightarrow> char" where
  "toLowerCase_char c =
     (let n = (of_char c :: nat) in if 65 \<le> n \<and> n \<le> 90 then char_of (n + 32) else c)"

definition toUpperCase :: "string \<Rightarrow> string" where
  "toUpperCase s = map toUpperCase_char s"

definition toLowerCase :: "string \<Rightarrow> string" where
  "toLowerCase s = map toLowerCase_char s"

text \<open>
  The characters the regular expression class \<open>\s\<close> matches among the code units 0..255:
  tab, line feed, vertical tab, form feed, carriage return, space and no-break space.
\<close>

definition is_space :: "char \<Rightarrow> bool" where
  "is_space c = ((of_char c :: nat) \<in> {9, 10, 11, 12, 13, 32, 160})"

section \<open>Hex text of a DUID\<close>

text \<open>\<open>duidToHex(duid) = duid.toString('hex').toUpperCase()\<close>\<close>

definition duidToHex :: "buffer \<Rightarrow> string" where
  "duidToHex duid = toUpperCase (toString_hex duid)"

text \<open>\<open>hex.replace(/[:\s]/g, '')\<close>\<close>

definition strip_separators :: "string \<Rightarrow> string" where
  "strip_separators hex = filter (\<lambda>c. \<not> (c = CHR '':'' \<or> is_space c)) hex"

text \<open>\<open>hexToDuid(hex) = Buffer.from(hex.replace(/[:\s]/g, ''), 'hex')\<close>\<close>

definition hexToDuid :: "string \<Rightarrow> buffer" where
  "hexToDuid hex = Buffer_from_hex (strip_separators hex)"

text \<open>
  Two texts that differ only in colons, white space and letter case: after the separators
  are removed they agree up to the case of their letters.
\<close>

definition same_hex_text :: "string \<Rightarrow> string \<Rightarrow> bool" where
  "same_hex_text s t =
     (toLowerCase (strip_separators s) = toLowerCase (strip_separators t))"

text \<open>The characters \<open>0\<close>..\<open>9\<close> and \<open>A\<close>..\<open>F\<close>.\<close>

definition is_upper_hex_digit :: "char \<Rightarrow> bool" where
  "is_upper_hex_digit c =
     (let n = (of_char c :: nat) in (48 \<le> n \<and> n \<le> 57) \<or> (65 \<le> n \<and> n \<le> 70))"

section \<open>Errors\<close>

text \<open>Every exception the modelled code can raise, as a value.\<close>

datatype error =
    ERR_OUT_OF_RANGE
  | TypeError
  | Unknown_DUID_type nat
  | Unsupported_platform string
  | Failed_to_set_DUID
  | Failed_to_restore_DUID
  | Could_not_detect_DHCP_client
  | Exec_failed string
  | Fs_failed string

section \<open>Small string and number helpers of the JavaScript library\<close>

text \<open>\<open>s.split(c)\<close> for a one-character separator: never the empty list.\<close>

fun split_on :: "char \<Rightarrow> string \<Rightarrow> string list" where
  "split_on c [] = [[]]"
| "split_on c (x # xs) =
     (if x = c then [] # split_on c xs
      else (case split_on c xs of
              [] \<Rightarrow> [[x]]
            | g # gs \<Rightarrow> (x # g) # gs))"

text \<open>\<open>xs.join(sep)\<close>\<close>

fun join :: "string \<Rightarrow> string list \<Rightarrow> string" where
  "join sep [] = []"
| "join sep [x] = x"
| "join sep (x # y # ys) = x @ sep @ join sep (y # ys)"

text \<open>\<open>s.padStart(n, c)\<close> for a one-character filler.\<close>

definition padStart :: "nat \<Rightarrow> char \<Rightarrow> string \<Rightarrow> string" where
  "padStart n c s = replicate (n - length s) c @ s"

text \<open>\<open>n.toString(16)\<close> for a non-negative integer.\<close>

fun toString16 :: "nat \<Rightarrow> string" where
  "toString16 n =
     (if n < 16 then [hexdigit n] else toString16 (n div 16) @ [hexdigit (n mod 16)])"

declare toString16.simps [simp del]

definition digit_value :: "char \<Rightarrow> nat" where
  "digit_value c = (case unhex c of Some v \<Rightarrow> v | None \<Rightarrow> 0)"

definition hex_value :: "string \<Rightarrow> nat" where
  "hex_value ds = foldl (\<lambda>acc c. 16 * acc + digit_value c) 0 ds"

text \<open>
  \<open>parseInt(s, 16)\<close>: leading white space is skipped, then an optional sign, then an
  optional \<open>0x\<close> or \<open>0X\<close>; the value is that of the longest run of hex digits that
  follows. \<open>None\<close> is \<open>NaN\<close>: no digit was found.
\<close>

definition parseInt16 :: "string \<Rightarrow> int option" where
  "parseInt16 s =
     (let s1 = dropWhile is_space s;
          neg = (case s1 of [] \<Rightarrow> False | c # r \<Rightarrow> c = CHR ''-'');
          s2 = (case s1 of [] \<Rightarrow> []
                | c # r \<Rightarrow> if c = CHR ''-'' \<or> c = CHR ''+'' then r else s1);
          s3 = (case s2 of
                  a # b # r \<Rightarrow>
                    if a = CHR ''0'' \<and> (b = CHR ''x'' \<or> b = CHR ''X'') then r else s2
                | _ \<Rightarrow> s2);
          ds = takeWhile is_hex_digit s3
      in if ds = [] then None
         else Some (if neg then - int (hex_value ds) else int (hex_value ds)))"

section \<open>Buffer reads and writes\<close>

text \<open>\<open>Buffer.alloc(n)\<close>: \<open>n\<close> zero bytes.\<close>

definition Buffer_alloc :: "nat \<Rightarrow> buffer" where
  "Buffer_alloc n = replicate n 0"

text \<open>
  \<open>buf.writeUInt8(value, offset)\<close>: the value is checked first (\<open>NaN\<close> passes the range
  check and is stored as 0), then the offset.
\<close>

definition writeUInt8 :: "buffer \<Rightarrow> int option \<Rightarrow> nat \<Rightarrow> error + buffer" where
  "writeUInt8 buf v off =
     (case v of
        None \<Rightarrow> if off < length buf then Inr (buf[off := 0]) else Inl ERR_OUT_OF_RANGE
      | Some x \<Rightarrow>
          if x > 255 \<or> x < 0 then Inl ERR_OUT_OF_RANGE
          else if off < length buf then Inr (buf[off := word_of_int x])
          else Inl ERR_OUT_OF_RANGE)"

definition writeUInt16BE :: "buffer \<Rightarrow> int \<Rightarrow> nat \<Rightarrow> error + buffer" where
  "writeUInt16BE buf x off =
     (if x > 65535 \<or> x < 0 then Inl ERR_OUT_OF_RANGE
      else if off + 1 < length buf
        then Inr (buf[off := word_of_int (x div 256), off + 1 := word_of_int x])
      else Inl ERR_OUT_OF_RANGE)"

definition writeUInt32BE :: "buffer \<Rightarrow> int \<Rightarrow> nat \<Rightarrow> error + buffer" where
  "writeUInt32BE buf x off =
     (if x > 4294967295 \<or> x < 0 then Inl ERR_OUT_OF_RANGE
      else if off + 3 < length buf
        then Inr (buf[off := word_of_int (x div 16777216),
                      off + 1 := word_of_int (x div 65536),
                      off + 2 := word_of_int (x div 256),
                      off + 3 := word_of_int x])
      else Inl ERR_OUT_OF_RANGE)"

text \<open>\<open>values.forEach((b, i) => buf.writeUInt8(b, off + i))\<close>: the first failing write aborts.\<close>

fun write_each :: "buffer \<Rightarrow> int option list \<Rightarrow> nat \<Rightarrow> error + buffer" where
  "write_each buf [] off = Inr buf"
| "write_each buf (b # bs) off =
     (case writeUInt8 buf b off of
        Inl e \<Rightarrow> Inl e
      | Inr buf' \<Rightarrow> write_each buf' bs (Suc off))"

text \<open>\<open>source.copy(target, off)\<close>: as many bytes as fit.\<close>

definition copy_into :: "buffer \<Rightarrow> buffer \<Rightarrow> nat \<Rightarrow> buffer" where
  "copy_into source target off =
     take off target @ take (length target - off) source
       @ drop (off + length source) target"

text \<open>\<open>buf.slice(a, b)\<close> for \<open>0 \<le> a \<le> b\<close>.\<close>

definition slice :: "'a list \<Rightarrow> nat \<Rightarrow> nat \<Rightarrow> 'a list" where
  "slice xs a b = take (b - a) (drop a xs)"

text \<open>The big-endian value of a run of bytes.\<close>

definition be_value :: "buffer \<Rightarrow> nat" where
  "be_value bs = foldl (\<lambda>acc b. 256 * acc + unat b) 0 bs"

text \<open>
  \<open>buf.readUInt16BE(off)\<close> and \<open>buf.readUInt32BE(off)\<close>. \<open>parseDUID\<close> calls them only
  behind a length check that puts the whole field inside the buffer.
\<close>

definition readUInt16BE :: "buffer \<Rightarrow> nat \<Rightarrow> nat" where
  "readUInt16BE buf off = be_value (slice buf off (off + 2))"

definition readUInt32BE :: "buffer \<Rightarrow> nat \<Rightarrow> nat" where
  "readUInt32BE buf off = be_value (slice buf off (off + 4))"

section \<open>Generating a DUID\<close>

definition DUID_LLT :: nat where "DUID_LLT = 1"
definition DUID_EN :: nat where "DUID_EN = 2"
definition DUID_LL :: nat where "DUID_LL = 3"
definition DUID_UUID :: nat where "DUID_UUID = 4"

definition DUID_TYPES :: "(string \<times> nat) list" where
  "DUID_TYPES =
     [(''DUID_LLT'', DUID_LLT), (''DUID_EN'', DUID_EN),
      (''DUID_LL'', DUID_LL), (''DUID_UUID'', DUID_UUID)]"

definition HW_TYPE_ETHERNET :: int where "HW_TYPE_ETHERNET = 1"

text \<open>
  Randomness and the clock are inputs: \<open>rnd k\<close> is the value of the \<open>k\<close>-th evaluation of
  \<open>Math.floor(Math.random() * 256)\<close> (always a byte), and \<open>now\<close> is \<open>Date.now()\<close> in
  milliseconds.
\<close>

text \<open>
  \<open>generateRandomMAC()\<close>: six random bytes, the first with the locally-administered bit
  set and the multicast bit cleared, as lower-case colon-separated hex.
\<close>

definition generateRandomMAC :: "(nat \<Rightarrow> byte) \<Rightarrow> string" where
  "generateRandomMAC rnd =
     (let bytes = map rnd [0..<6];
          bytes' = bytes[0 := ((bytes ! 0) OR 0x02) AND 0xFE]
      in join '':'' (map (\<lambda>b. padStart 2 (CHR ''0'') (toString16 (unat b))) bytes'))"

text \<open>
  An optional string argument (\<open>null\<close> is \<open>None\<close>) is truthy when it is present and
  not empty.
\<close>

definition truthy :: "string option \<Rightarrow> bool" where
  "truthy s = (case s of None \<Rightarrow> False | Some m \<Rightarrow> m \<noteq> [])"

text \<open>
  \<open>mac || generateRandomMAC()\<close>: a missing or empty \<open>mac\<close> is replaced by a random
  address, which consumes the first six random bytes.
\<close>

definition mac_or_random :: "string option \<Rightarrow> (nat \<Rightarrow> byte) \<Rightarrow> string" where
  "mac_or_random mac rnd =
     (case mac of
        None \<Rightarrow> generateRandomMAC rnd
      | Some m \<Rightarrow> if m = [] then generateRandomMAC rnd else m)"

text \<open>
  \<open>generateDUID(type, mac)\<close>. The address is chosen before the switch on the type, so
  the UUID bytes are the random bytes drawn after those of a random address.
\<close>

definition generateDUID ::
  "nat \<Rightarrow> string option \<Rightarrow> (nat \<Rightarrow> byte) \<Rightarrow> int \<Rightarrow> error + buffer" where
  "generateDUID type mac rnd now =
     (let macAddr = mac_or_random mac rnd;
          drawn = (if truthy mac then 0 else 6);
          macBytes = map parseInt16 (split_on (CHR '':'') macAddr)
      in
      if type = DUID_LLT then
        (case writeUInt16BE (Buffer_alloc 14) (int DUID_LLT) 0 of
           Inl e \<Rightarrow> Inl e
         | Inr b1 \<Rightarrow>
         (case writeUInt16BE b1 HW_TYPE_ETHERNET 2 of
           Inl e \<Rightarrow> Inl e
         | Inr b2 \<Rightarrow>
         (case writeUInt32BE b2 (now div 1000 - 946684800) 4 of
           Inl e \<Rightarrow> Inl e
         | Inr b3 \<Rightarrow> write_each b3 macBytes 8)))
      else if type = DUID_EN then
        (let identifier = Buffer_from_hex (filter (\<lambda>c. c \<noteq> CHR '':'') macAddr) in
         case writeUInt16BE (Buffer_alloc (6 + length identifier)) (int DUID_EN) 0 of
           Inl e \<Rightarrow> Inl e
         | Inr b1 \<Rightarrow>
         (case writeUInt32BE b1 9 2 of
           Inl e \<Rightarrow> Inl e
         | Inr b2 \<Rightarrow> Inr (copy_into identifier b2 6)))
      else if type = DUID_LL then
        (case writeUInt16BE (Buffer_alloc 10) (int DUID_LL) 0 of
           Inl e \<Rightarrow> Inl e
         | Inr b1 \<Rightarrow>
         (case writeUInt16BE b1 HW_TYPE_ETHERNET 2 of
           Inl e \<Rightarrow> Inl e
         | Inr b2 \<Rightarrow> write_each b2 macBytes 4))
      else if type = DUID_UUID then
        (case writeUInt16BE (Buffer_alloc 18) (int DUID_UUID) 0 of
           Inl e \<Rightarrow> Inl e
         | Inr b1 \<Rightarrow>
         (case write_each b1 (map (\<lambda>i. Some (uint (rnd (drawn + i)))) [0..<16]) 2 of
           Inl e \<Rightarrow> Inl e
         | Inr b2 \<Rightarrow>
             (let b3 = b2[8 := ((b2 ! 8) AND 0x0F) OR 0x40]
              in Inr (b3[10 := ((b3 ! 10) AND 0x3F) OR 0x80]))))
      else Inl (Unknown_DUID_type type))"

section \<open>Formatting and parsing a DUID\<close>

text \<open>\<open>hex.match(/.{2}/g)\<close> on hex text: the list of two-character groups, \<open>None\<close> (null) if there is none.\<close>

fun pairs :: "string \<Rightarrow> string list" where
  "pairs (a # b # cs) = [a, b] # pairs cs"
| "pairs _ = []"

definition match_pairs :: "string \<Rightarrow> string list option" where
  "match_pairs hex = (if pairs hex = [] then None else Some (pairs hex))"

text \<open>
  \<open>formatDUID(duid) = duid.toString('hex').match(/.{2}/g).join(':').toUpperCase()\<close>;
  on an empty buffer the match is null and the call of \<open>join\<close> raises a TypeError.
\<close>

definition formatDUID :: "buffer \<Rightarrow> error + string" where
  "formatDUID duid =
     (case match_pairs (toString_hex duid) of
        None \<Rightarrow> Inl TypeError
      | Some groups \<Rightarrow> Inr (toUpperCase (join '':'' groups)))"

datatype duid_type = Unknown_type | Type_code nat

datatype raw_field = Raw_buffer buffer | Raw_text string

record parsed_duid =
  ptype :: duid_type
  typeName :: "string option"
  raw :: raw_field
  hwType :: "nat option"
  time :: "nat option"
  timeDate :: "int option"
  lladdr :: "string option"
  enterpriseNumber :: "nat option"
  identifier_hex :: "string option"
  uuid :: "string option"

text \<open>\<open>Object.keys(DUID_TYPES).find(k => DUID_TYPES[k] === type) || 'unknown'\<close>\<close>

definition type_name :: "nat \<Rightarrow> string" where
  "type_name t =
     (case find (\<lambda>kv. snd kv = t) DUID_TYPES of
        None \<Rightarrow> ''unknown''
      | Some kv \<Rightarrow> fst kv)"

text \<open>\<open>Array.from(bytes).map(b => b.toString(16).padStart(2, '0')).join(':')\<close>\<close>

definition colon_hex :: "buffer \<Rightarrow> string" where
  "colon_hex bytes = join '':'' (map (\<lambda>b. padStart 2 (CHR ''0'') (toString16 (unat b))) bytes)"

definition unparsed :: "buffer \<Rightarrow> parsed_duid" where
  "unparsed duid =
     \<lparr>ptype = Unknown_type, typeName = None, raw = Raw_buffer duid, hwType = None,
      time = None, timeDate = None, lladdr = None, enterpriseNumber = None,
      identifier_hex = None, uuid = None\<rparr>"

text \<open>
  \<open>parseDUID(duid)\<close>. The field \<open>ptype\<close> is the source's \<open>type\<close>; a field the source
  leaves undefined is \<open>None\<close>; \<open>identifier_hex\<close> is the source's \<open>identifier\<close>.
\<close>

definition parseDUID :: "buffer \<Rightarrow> error + parsed_duid" where
  "parseDUID duid =
     (if length duid < 2 then Inr (unparsed duid)
      else
        (let type = readUInt16BE duid 0 in
         case formatDUID duid of
           Inl e \<Rightarrow> Inl e
         | Inr text \<Rightarrow>
           (let result = (unparsed duid)
                  \<lparr>ptype := Type_code type, typeName := Some (type_name type),
                   raw := Raw_text text\<rparr>
            in
            if type = DUID_LLT then
              (if length duid \<ge> 14 then
                 Inr (result
                   \<lparr>hwType := Some (readUInt16BE duid 2),
                    time := Some (readUInt32BE duid 4),
                    timeDate := Some ((int (readUInt32BE duid 4) + 946684800) * 1000),
                    lladdr := Some (colon_hex (slice duid 8 14))\<rparr>)
               else Inr result)
            else if type = DUID_EN then
              (if length duid \<ge> 6 then
                 Inr (result
                   \<lparr>enterpriseNumber := Some (readUInt32BE duid 2),
                    identifier_hex := Some (toString_hex (drop 6 duid))\<rparr>)
               else Inr result)
            else if type = DUID_LL then
              (if length duid \<ge> 10 then
                 Inr (result
                   \<lparr>hwType := Some (readUInt16BE duid 2),
                    lladdr := Some (colon_hex (slice duid 4 10))\<rparr>)
               else Inr result)
            else if type = DUID_UUID then
              (if length duid \<ge> 18 then
                 (let u = slice duid 2 18 in
                  Inr (result
                    \<lparr>uuid := Some (join ''-''
                       [toString_hex (slice u 0 4), toString_hex (slice u 4 6),
                        toString_hex (slice u 6 8), toString_hex (slice u 8 10),
                        toString_hex (slice u 10 16)])\<rparr>))
               else Inr result)
            else Inr result)))"

section \<open>Notions used to state the codec properties\<close>

text \<open>
  A valid textual MAC address: six colon-separated groups of two hex digits each, in
  either letter case.
\<close>

definition is_mac_text :: "string \<Rightarrow> bool" where
  "is_mac_text m =
     (let groups = split_on (CHR '':'') m
      in length groups = 6
         \<and> list_all (\<lambda>g. length g = 2 \<and> list_all is_hex_digit g) groups)"

text \<open>The clock values for which the LLT time field fits its 32 bits.\<close>

definition llt_clock_ok :: "int \<Rightarrow> bool" where
  "llt_clock_ok now = (0 \<le> now div 1000 - 946684800 \<and> now div 1000 - 946684800 \<le> 4294967295)"

text \<open>What \<open>writeUInt8\<close> stores for a value it accepts, and the values it accepts.\<close>

definition byte_of :: "int option \<Rightarrow> byte" where
  "byte_of v = (case v of None \<Rightarrow> 0 | Some x \<Rightarrow> word_of_int x)"

definition byte_value :: "int option \<Rightarrow> bool" where
  "byte_value v = (case v of None \<Rightarrow> True | Some x \<Rightarrow> 0 \<le> x \<and> x \<le> 255)"

text \<open>A fixed random source and a fixed clock (2023-11-14T22:13:20Z) for the worked examples.\<close>

definition zero_random :: "nat \<Rightarrow> byte" where
  "zero_random k = 0"

definition example_now :: int where
  "example_now = 1700000000000"

section \<open>More string helpers\<close>

definition dquote :: char where "dquote = CHR 0x22"
definition backslash :: char where "backslash = CHR 0x5C"
definition newline :: char where "newline = CHR 0x0A"
definition carriage_return :: char where "carriage_return = CHR 0x0D"

text \<open>\<open>"${s}"\<close> inside a command line.\<close>

definition quoted :: "string \<Rightarrow> string" where
  "quoted s = [dquote] @ s @ [dquote]"

text \<open>What is left of \<open>s\<close> after the literal \<open>p\<close>, if \<open>s\<close> starts with it.\<close>

fun strip_prefix :: "string \<Rightarrow> string \<Rightarrow> string option" where
  "strip_prefix [] s = Some s"
| "strip_prefix (p # ps) [] = None"
| "strip_prefix (p # ps) (c # cs) = (if p = c then strip_prefix ps cs else None)"

text \<open>The same, ignoring letter case (a literal under the regular expression flag \<open>i\<close>).\<close>

fun strip_prefix_ci :: "string \<Rightarrow> string \<Rightarrow> string option" where
  "strip_prefix_ci [] s = Some s"
| "strip_prefix_ci (p # ps) [] = None"
| "strip_prefix_ci (p # ps) (c # cs) =
     (if toLowerCase_char p = toLowerCase_char c then strip_prefix_ci ps cs else None)"

text \<open>\<open>s.includes(needle)\<close>\<close>

fun string_includes :: "string \<Rightarrow> string \<Rightarrow> bool" where
  "string_includes needle [] = (needle = [])"
| "string_includes needle (c # cs) =
     (strip_prefix needle (c # cs) \<noteq> None \<or> string_includes needle cs)"

text \<open>\<open>s.trim()\<close>\<close>

definition trim :: "string \<Rightarrow> string" where
  "trim s = rev (dropWhile is_space (rev (dropWhile is_space s)))"

text \<open>At least one white-space character, then the rest: \<open>\s+\<close> before a character that is no white space.\<close>

definition skip_spaces1 :: "string \<Rightarrow> string option" where
  "skip_spaces1 s =
     (case s of
        [] \<Rightarrow> None
      | c # cs \<Rightarrow> if is_space c then Some (dropWhile is_space cs) else None)"

section \<open>The host: file system, registry and external commands\<close>

text \<open>
  The record \<open>{duid, storedAt, platform, hostname}\<close> that \<open>storeOriginalDUID\<close> writes.
\<close>

record metadata =
  meta_duid :: string
  meta_storedAt :: string
  meta_platform :: string
  meta_hostname :: string

text \<open>
  The content of a file. A file that holds the JSON text of a metadata record is
  \<open>Record_json\<close>: \<open>JSON.parse\<close> gives the record back. Any other content is \<open>Bytes\<close>
  (written from a Buffer) or \<open>Text\<close> (written from a string), and is not a record for
  \<open>JSON.parse\<close>.
\<close>

datatype content = Bytes buffer | Text string | Record_json metadata

text \<open>
  The state of the host and what its environment answers. \<open>exec_fails\<close>, \<open>exec_stdout\<close>,
  \<open>mkdir_fails\<close> and \<open>write_fails\<close> are the environment's answers: any command may exit
  with an error, any directory creation or file write may be refused. \<open>exec_log\<close> lists
  the command lines handed to \<open>execSync\<close>, oldest first. \<open>console.log\<close> is not modelled.
\<close>

record world =
  os_platform :: string
  os_homedir :: string
  os_hostname :: string
  env_PROGRAMDATA :: "string option"
  env_APPDATA :: "string option"
  date_iso :: string
  files :: "string \<Rightarrow> content option"
  dirs :: "string \<Rightarrow> bool"
  reg_duid :: "string option"
  exec_fails :: "string \<Rightarrow> bool"
  exec_stdout :: "string \<Rightarrow> string"
  mkdir_fails :: "string \<Rightarrow> bool"
  write_fails :: "string \<Rightarrow> bool"
  exec_log :: "string list"

subsection \<open>JSON text of a record, bytes of a text\<close>

text \<open>A string literal of \<open>JSON.stringify\<close>.\<close>

definition json_escape :: "char \<Rightarrow> string" where
  "json_escape c =
     (let n = (of_char c :: nat) in
      if c = dquote then [backslash, dquote]
      else if c = backslash then [backslash, backslash]
      else if n = 8 then [backslash, CHR ''b'']
      else if n = 9 then [backslash, CHR ''t'']
      else if n = 10 then [backslash, CHR ''n'']
      else if n = 12 then [backslash, CHR ''f'']
      else if n = 13 then [backslash, CHR ''r'']
      else if n < 32 then [backslash, CHR ''u'', CHR ''0'', CHR ''0'', hexdigit (n div 16), hexdigit (n mod 16)]
      else [c])"

definition json_string :: "string \<Rightarrow> string" where
  "json_string s = quoted (concat (map json_escape s))"

text \<open>\<open>JSON.stringify(metadata, null, 2)\<close>\<close>

definition JSON_stringify :: "metadata \<Rightarrow> string" where
  "JSON_stringify m =
     ''{'' @ [newline]
     @ ''  '' @ json_string ''duid'' @ '': '' @ json_string (meta_duid m) @ '','' @ [newline]
     @ ''  '' @ json_string ''storedAt'' @ '': '' @ json_string (meta_storedAt m) @ '','' @ [newline]
     @ ''  '' @ json_string ''platform'' @ '': '' @ json_string (meta_platform m) @ '','' @ [newline]
     @ ''  '' @ json_string ''hostname'' @ '': '' @ json_string (meta_hostname m) @ [newline]
     @ ''}''"

text \<open>The UTF-8 bytes of a text whose characters are the code units 0..255, and back.\<close>

definition utf8_encode :: "string \<Rightarrow> buffer" where
  "utf8_encode s =
     concat (map (\<lambda>c. let n = (of_char c :: nat) in
                        if n < 128 then [word_of_nat n]
                        else [word_of_nat (192 + n div 64), word_of_nat (128 + n mod 64)]) s)"

text \<open>
  Reading bytes as text: exact for ASCII bytes, the only ones the configuration files of
  the model hold; other bytes are read one character each.
\<close>

definition bytes_as_text :: "buffer \<Rightarrow> string" where
  "bytes_as_text b = map (\<lambda>x. char_of (unat x)) b"

text \<open>\<open>fs.readFileSync(path)\<close> gives the bytes of a file, \<open>fs.readFileSync(path, 'utf8')\<close> its text.\<close>

definition raw_bytes :: "content \<Rightarrow> buffer" where
  "raw_bytes c =
     (case c of
        Bytes b \<Rightarrow> b
      | Text s \<Rightarrow> utf8_encode s
      | Record_json m \<Rightarrow> utf8_encode (JSON_stringify m))"

definition as_text :: "content \<Rightarrow> string" where
  "as_text c =
     (case c of
        Bytes b \<Rightarrow> bytes_as_text b
      | Text s \<Rightarrow> s
      | Record_json m \<Rightarrow> JSON_stringify m)"

subsection \<open>The file system calls\<close>

text \<open>\<open>fs.existsSync(p)\<close>: a file or a directory.\<close>

definition existsSync :: "string \<Rightarrow> world \<Rightarrow> bool" where
  "existsSync p w = (files w p \<noteq> None \<or> dirs w p)"

text \<open>
  \<open>fs.mkdirSync(p, {recursive: true})\<close>. The missing ancestors it also creates are never
  looked at by the modelled code and are left out.
\<close>

definition mkdirSync :: "string \<Rightarrow> world \<Rightarrow> (error + unit) \<times> world" where
  "mkdirSync p w =
     (if mkdir_fails w p then (Inl (Fs_failed p), w)
      else (Inr (), w\<lparr>dirs := (dirs w)(p := True)\<rparr>))"

text \<open>
  \<open>path.dirname(p)\<close> for the separators of the platform: what precedes the last
  separator.
\<close>

definition is_separator :: "string \<Rightarrow> char \<Rightarrow> bool" where
  "is_separator pf c =
     (c = CHR ''/'' \<or> (pf = ''win32'' \<and> c = backslash))"

definition dirname :: "string \<Rightarrow> string \<Rightarrow> string" where
  "dirname pf p =
     (let r = dropWhile (\<lambda>c. \<not> is_separator pf c) (rev p)
      in if r = [] then ''.'' else if tl r = [] then [hd r] else rev (tl r))"

text \<open>
  \<open>path.join(a, b, ...)\<close> of parts that need no normalising: the parts with the
  platform's separator between them.
\<close>

definition path_join :: "string \<Rightarrow> string list \<Rightarrow> string" where
  "path_join pf parts = join (if pf = ''win32'' then [backslash] else ''/'') parts"

text \<open>\<open>fs.writeFileSync(p, data)\<close>: fails when refused or when the directory is missing.\<close>

definition writeFileSync :: "string \<Rightarrow> content \<Rightarrow> world \<Rightarrow> (error + unit) \<times> world" where
  "writeFileSync p c w =
     (if write_fails w p \<or> \<not> dirs w (dirname (os_platform w) p) \<or> dirs w p
      then (Inl (Fs_failed p), w)
      else (Inr (), w\<lparr>files := (files w)(p := Some c)\<rparr>))"

definition readFileSync :: "string \<Rightarrow> world \<Rightarrow> error + content" where
  "readFileSync p w = (case files w p of None \<Rightarrow> Inl (Fs_failed p) | Some c \<Rightarrow> Inr c)"

definition unlinkSync :: "string \<Rightarrow> world \<Rightarrow> (error + unit) \<times> world" where
  "unlinkSync p w =
     (case files w p of
        None \<Rightarrow> (Inl (Fs_failed p), w)
      | Some c \<Rightarrow> (Inr (), w\<lparr>files := (files w)(p := None)\<rparr>))"

subsection \<open>External commands\<close>

definition DUID_PATH :: string where
  "DUID_PATH = ''/var/db/dhcpclient/DUID''"

definition REGISTRY_PATH :: string where
  "REGISTRY_PATH =
     join [backslash]
       [''HKEY_LOCAL_MACHINE'', ''SYSTEM'', ''CurrentControlSet'', ''Services'', ''Tcpip6'',
        ''Parameters'']"

definition rm_DUID_glob :: string where
  "rm_DUID_glob = ''rm -f /var/db/dhcpclient/DUID*''"

definition rm_leases :: string where
  "rm_leases = ''rm -rf /var/db/dhcpclient/leases/*''"

definition rm_DUID :: string where
  "rm_DUID = ''rm -f /var/db/dhcpclient/DUID''"

definition reg_query :: string where
  "reg_query = ''reg query '' @ quoted REGISTRY_PATH @ '' /v Dhcpv6DUID 2>nul''"

definition reg_add_prefix :: string where
  "reg_add_prefix = ''reg add '' @ quoted REGISTRY_PATH @ '' /v Dhcpv6DUID /t REG_BINARY /d ''"

definition reg_add :: "string \<Rightarrow> string" where
  "reg_add duidHex = reg_add_prefix @ duidHex @ '' /f''"

definition reg_delete :: string where
  "reg_delete = ''reg delete '' @ quoted REGISTRY_PATH @ '' /v Dhcpv6DUID /f''"

text \<open>
  The shell pattern \<open>/var/db/dhcpclient/DUID*\<close> matches every name in that directory
  that starts with \<open>DUID\<close>; \<open>/var/db/dhcpclient/leases/*\<close> matches what lies under the
  lease directory.
\<close>

definition matches_DUID_glob :: "string \<Rightarrow> bool" where
  "matches_DUID_glob p =
     (case strip_prefix ''/var/db/dhcpclient/DUID'' p of
        None \<Rightarrow> False
      | Some rest \<Rightarrow> CHR ''/'' \<notin> set rest)"

definition under_leases :: "string \<Rightarrow> bool" where
  "under_leases p =
     (case strip_prefix ''/var/db/dhcpclient/leases/'' p of
        None \<Rightarrow> False
      | Some rest \<Rightarrow> rest \<noteq> [])"

text \<open>The data of a \<open>reg add\<close> command line: what stands between \<open>/d\<close> and \<open>/f\<close>.\<close>

definition reg_add_data :: "string \<Rightarrow> string option" where
  "reg_add_data cmd =
     (case strip_prefix reg_add_prefix cmd of
        None \<Rightarrow> None
      | Some rest \<Rightarrow>
          (case strip_prefix (rev '' /f'') (rev rest) of
             None \<Rightarrow> None
           | Some d \<Rightarrow> Some (rev d)))"

text \<open>
  What a command that succeeds does to the modelled state: the three \<open>rm\<close> commands
  delete files, \<open>reg add\<close> and \<open>reg delete\<close> set and remove the registry value. The
  other tools (\<open>networksetup\<close>, \<open>netsh\<close>, \<open>systemctl\<close>, \<open>nmcli\<close>, \<open>dhclient\<close>, ...)
  configure the network stack and leave files and registry value as they are.
\<close>

definition command_effect :: "string \<Rightarrow> world \<Rightarrow> world" where
  "command_effect cmd w =
     (if cmd = rm_DUID_glob
        then w\<lparr>files := (\<lambda>p. if matches_DUID_glob p then None else files w p)\<rparr>
      else if cmd = rm_leases
        then w\<lparr>files := (\<lambda>p. if under_leases p then None else files w p)\<rparr>
      else if cmd = rm_DUID
        then w\<lparr>files := (files w)(DUID_PATH := None)\<rparr>
      else if cmd = reg_delete
        then w\<lparr>reg_duid := None\<rparr>
      else (case reg_add_data cmd of
              Some d \<Rightarrow> w\<lparr>reg_duid := Some d\<rparr>
            | None \<Rightarrow> w))"

text \<open>
  \<open>reg query\<close> and \<open>reg delete\<close> exit with an error when the value does not exist;
  otherwise \<open>reg query\<close> prints the key, then the value line.
\<close>

definition command_fails :: "string \<Rightarrow> world \<Rightarrow> bool" where
  "command_fails cmd w =
     (exec_fails w cmd \<or> ((cmd = reg_query \<or> cmd = reg_delete) \<and> reg_duid w = None))"

definition reg_query_output :: "string \<Rightarrow> string" where
  "reg_query_output d =
     [carriage_return, newline] @ REGISTRY_PATH @ [carriage_return, newline]
     @ ''    Dhcpv6DUID    REG_BINARY    '' @ d @ [carriage_return, newline]
     @ [carriage_return, newline]"

definition command_stdout :: "string \<Rightarrow> world \<Rightarrow> string" where
  "command_stdout cmd w =
     (if cmd = reg_query
        then (case reg_duid w of None \<Rightarrow> [] | Some d \<Rightarrow> reg_query_output d)
      else exec_stdout w cmd)"

text \<open>\<open>execSync(cmd)\<close>: throws when the command exits with an error, else returns its output.\<close>

definition execSync :: "string \<Rightarrow> world \<Rightarrow> (error + string) \<times> world" where
  "execSync cmd w =
     (let w1 = w\<lparr>exec_log := exec_log w @ [cmd]\<rparr>
      in if command_fails cmd w then (Inl (Exec_failed cmd), w1)
         else (Inr (command_stdout cmd w), command_effect cmd w1))"

section \<open>The store of the original DUID\<close>

text \<open>\<open>process.env.X || fallback\<close>\<close>

definition env_or :: "string option \<Rightarrow> string \<Rightarrow> string" where
  "env_or v fallback = (if truthy v then the v else fallback)"

text \<open>
  \<open>getOriginalDUIDPath()\<close>. On Linux and Windows it creates the system directory when
  that is missing, and falls back to a per-user path when the creation fails.
\<close>

definition getOriginalDUIDPath :: "world \<Rightarrow> string \<times> world" where
  "getOriginalDUIDPath w =
     (let pf = os_platform w in
      if pf = ''darwin'' then (''/var/db/dhcpclient/DUID.original'', w)
      else if pf = ''linux'' then
        (let linuxPath = ''/var/lib/spoofy'' in
         if \<not> existsSync linuxPath w then
           (case mkdirSync linuxPath w of
              (Inl e, w1) \<Rightarrow> (path_join pf [os_homedir w, ''.spoofy'', ''duid.original''], w1)
            | (Inr u, w1) \<Rightarrow> (path_join pf [linuxPath, ''duid.original''], w1))
         else (path_join pf [linuxPath, ''duid.original''], w))
      else if pf = ''win32'' then
        (let winPath =
               path_join pf [env_or (env_PROGRAMDATA w) (''C:'' @ [backslash] @ ''ProgramData''),
                             ''spoofy'']
         in
         if \<not> existsSync winPath w then
           (case mkdirSync winPath w of
              (Inl e, w1) \<Rightarrow>
                (path_join pf [env_or (env_APPDATA w) (os_homedir w), ''spoofy'', ''duid.original''],
                 w1)
            | (Inr u, w1) \<Rightarrow> (path_join pf [winPath, ''duid.original''], w1))
         else (path_join pf [winPath, ''duid.original''], w))
      else (path_join pf [os_homedir w, ''.spoofy'', ''duid.original''], w))"

text \<open>
  \<open>storeOriginalDUID(duid)\<close>: \<open>false\<close> and nothing written when the file exists; else
  the record is written and the result is \<open>true\<close>. A refused \<open>mkdirSync\<close> or
  \<open>writeFileSync\<close> propagates.
\<close>

definition storeOriginalDUID :: "buffer \<Rightarrow> world \<Rightarrow> (error + bool) \<times> world" where
  "storeOriginalDUID duid w =
     (case getOriginalDUIDPath w of (originalPath, w1) \<Rightarrow>
      if existsSync originalPath w1 then (Inr False, w1)
      else
        (let dir = dirname (os_platform w1) originalPath in
         case (if \<not> existsSync dir w1 then mkdirSync dir w1 else (Inr (), w1)) of
           (Inl e, w2) \<Rightarrow> (Inl e, w2)
         | (Inr u, w2) \<Rightarrow>
             (let metadata =
                    \<lparr>meta_duid = toString_hex duid, meta_storedAt = date_iso w2,
                     meta_platform = os_platform w2, meta_hostname = os_hostname w2\<rparr>
              in case writeFileSync originalPath (Record_json metadata) w2 of
                   (Inl e, w3) \<Rightarrow> (Inl e, w3)
                 | (Inr u', w3) \<Rightarrow> (Inr True, w3))))"

text \<open>
  \<open>getOriginalDUID()\<close>: \<open>None\<close> (null) when nothing exists at the path; the decoded
  \<open>duid\<close> of a record; the raw bytes of a file that is no record (the legacy format); and
  \<open>None\<close> when both reads fail, which is the case of a directory at the path.
\<close>

definition getOriginalDUID :: "world \<Rightarrow> buffer option \<times> world" where
  "getOriginalDUID w =
     (case getOriginalDUIDPath w of (originalPath, w1) \<Rightarrow>
      if \<not> existsSync originalPath w1 then (None, w1)
      else
        (case readFileSync originalPath w1 of
           Inl e \<Rightarrow> (None, w1)
         | Inr (Record_json metadata) \<Rightarrow> (Some (Buffer_from_hex (meta_duid metadata)), w1)
         | Inr c \<Rightarrow> (Some (raw_bytes c), w1)))"


definition clearOriginalDUID :: "world \<Rightarrow> (error + bool) \<times> world" where
  "clearOriginalDUID w =
     (case getOriginalDUIDPath w of (originalPath, w1) \<Rightarrow>
      if existsSync originalPath w1 then
        (case unlinkSync originalPath w1 of
           (Inl e, w2) \<Rightarrow> (Inl e, w2)
         | (Inr u, w2) \<Rightarrow> (Inr True, w2))
      else (Inr False, w1))"

text \<open>The three results of \<open>restoreDUID\<close>: \<open>true\<close>, \<open>'not_spoofed'\<close> and \<open>false\<close>.\<close>

datatype restore_result = Restored | Not_spoofed | No_original

text \<open>
  \<open>backupOriginal()\<close>, the same in the three platform objects but for the
  \<open>getCurrentDUID\<close> it calls: the current DUID, if there is one, goes to
  \<open>storeOriginalDUID\<close>.
\<close>

definition backupOriginal ::
  "(world \<Rightarrow> buffer option \<times> world) \<Rightarrow> world \<Rightarrow> (error + bool) \<times> world" where
  "backupOriginal getCurrent w =
     (case getCurrent w of
        (None, w1) \<Rightarrow> (Inr False, w1)
      | (Some current, w1) \<Rightarrow>
          (case storeOriginalDUID current w1 of
             (Inl e, w2) \<Rightarrow> (Inl e, w2)
           | (Inr stored, w2) \<Rightarrow> (Inr True, w2)))"

section \<open>macOS\<close>

definition networksetup :: "string \<Rightarrow> string \<Rightarrow> string" where
  "networksetup flag name = ''networksetup '' @ flag @ '' '' @ quoted name"

text \<open>\<open>macos.getCurrentDUID()\<close>: every exception inside is caught and gives \<open>null\<close>.\<close>

definition macos_getCurrentDUID :: "world \<Rightarrow> buffer option \<times> world" where
  "macos_getCurrentDUID w =
     (if existsSync DUID_PATH w then
        (case readFileSync DUID_PATH w of
           Inl e \<Rightarrow> (None, w)
         | Inr c \<Rightarrow> (Some (raw_bytes c), w))
      else
        (case execSync ''defaults read /var/db/dhcpclient/DUID 2>/dev/null || true'' w of
           (Inl e, w1) \<Rightarrow> (None, w1)
         | (Inr out, w1) \<Rightarrow>
             (let result = trim out
              in if result \<noteq> [] then (Some (hexToDuid result), w1) else (None, w1))))"

definition macos_backupOriginal :: "world \<Rightarrow> (error + bool) \<times> world" where
  "macos_backupOriginal w = backupOriginal macos_getCurrentDUID w"

text \<open>
  \<open>portLine.match(/Hardware Port: (.+)/)\<close> on one line: the first place where the
  literal is followed by a character that is no line terminator, and the run of such
  characters there.
\<close>

fun match_hardware_port :: "string \<Rightarrow> string option" where
  "match_hardware_port [] = None"
| "match_hardware_port (c # cs) =
     (case strip_prefix ''Hardware Port: '' (c # cs) of
        None \<Rightarrow> match_hardware_port cs
      | Some rest \<Rightarrow>
          (let name = takeWhile (\<lambda>x. x \<noteq> carriage_return \<and> x \<noteq> newline) rest
           in if name \<noteq> [] then Some name else match_hardware_port cs))"

text \<open>
  The loop of \<open>getHardwarePort\<close> over the lines, with the previous line at hand. A
  matching first line has no previous line: the TypeError this raises is caught and the
  result is \<open>null\<close>.
\<close>

fun scan_hardware_ports :: "string \<Rightarrow> string option \<Rightarrow> string list \<Rightarrow> string option" where
  "scan_hardware_ports device prev [] = None"
| "scan_hardware_ports device prev (l # ls) =
     (if string_includes (''Device: '' @ device) l then
        (case prev of
           None \<Rightarrow> None
         | Some portLine \<Rightarrow>
             (case match_hardware_port portLine of
                Some port \<Rightarrow> Some port
              | None \<Rightarrow> scan_hardware_ports device (Some l) ls))
      else scan_hardware_ports device (Some l) ls)"

definition macos_getHardwarePort :: "string \<Rightarrow> world \<Rightarrow> string option \<times> world" where
  "macos_getHardwarePort device w =
     (case execSync ''networksetup -listallhardwareports'' w of
        (Inl e, w1) \<Rightarrow> (None, w1)
      | (Inr out, w1) \<Rightarrow> (scan_hardware_ports device None (split_on newline out), w1))"

text \<open>
  The block that \<open>setDUID\<close> and \<open>restoreDUID\<close> run before and after the write, with
  \<open>-setv6off\<close> and with \<open>-setv6automatic\<close>:
  \<^verbatim>\<open>try { execSync(`networksetup ${flag} "${iface}"`) }
  catch (e) { const hwPort = this.getHardwarePort(iface);
              if (hwPort) { execSync(`networksetup ${flag} "${hwPort}"`) } }\<close>
  The second \<open>execSync\<close> stands in the catch block: its failure propagates.
\<close>

definition macos_set_v6 :: "string \<Rightarrow> string \<Rightarrow> world \<Rightarrow> (error + unit) \<times> world" where
  "macos_set_v6 flag iface w =
     (case execSync (networksetup flag iface) w of
        (Inr out, w1) \<Rightarrow> (Inr (), w1)
      | (Inl e, w1) \<Rightarrow>
          (case macos_getHardwarePort iface w1 of
             (None, w2) \<Rightarrow> (Inr (), w2)
           | (Some hwPort, w2) \<Rightarrow>
               (case execSync (networksetup flag hwPort) w2 of
                  (Inl e', w3) \<Rightarrow> (Inl e', w3)
                | (Inr out, w3) \<Rightarrow> (Inr (), w3))))"

text \<open>\<open>if (iface) { ... }\<close> around such a block.\<close>

definition when_iface ::
  "string option \<Rightarrow> (string \<Rightarrow> world \<Rightarrow> (error + unit) \<times> world) \<Rightarrow> world
     \<Rightarrow> (error + unit) \<times> world" where
  "when_iface iface body w = (if truthy iface then body (the iface) w else (Inr (), w))"

text \<open>\<open>try { execSync(a); execSync(b) } catch (e) {}\<close>\<close>

definition try_both :: "string \<Rightarrow> string \<Rightarrow> world \<Rightarrow> world" where
  "try_both a b w =
     (case execSync a w of
        (Inl e, w1) \<Rightarrow> w1
      | (Inr out, w1) \<Rightarrow> snd (execSync b w1))"

text \<open>\<open>try { execSync(a) } catch (e) {}\<close>\<close>

definition try_exec :: "string \<Rightarrow> world \<Rightarrow> world" where
  "try_exec a w = snd (execSync a w)"

text \<open>\<open>macos.setDUID(duid, iface)\<close>\<close>

definition macos_setDUID :: "buffer \<Rightarrow> string option \<Rightarrow> world \<Rightarrow> (error + bool) \<times> world" where
  "macos_setDUID duid iface w =
     (case macos_backupOriginal w of
        (Inl e, w1) \<Rightarrow> (Inl e, w1)
      | (Inr backed, w1) \<Rightarrow>
     (case when_iface iface (macos_set_v6 ''-setv6off'') w1 of
        (Inl e, w2) \<Rightarrow> (Inl e, w2)
      | (Inr u, w2) \<Rightarrow>
     (let w3 = try_both rm_DUID_glob rm_leases w2;
          duidDir = dirname (os_platform w3) DUID_PATH
      in
      case (if \<not> existsSync duidDir w3 then mkdirSync duidDir w3 else (Inr (), w3)) of
        (Inl e, w4) \<Rightarrow> (Inl e, w4)
      | (Inr u, w4) \<Rightarrow>
     (case writeFileSync DUID_PATH (Bytes duid) w4 of
        (Inl e, w5) \<Rightarrow> (Inl e, w5)
      | (Inr u, w5) \<Rightarrow>
     (case when_iface iface (macos_set_v6 ''-setv6automatic'') w5 of
        (Inl e, w6) \<Rightarrow> (Inl e, w6)
      | (Inr u, w6) \<Rightarrow> (Inr True, w6))))))"

text \<open>\<open>macos.restoreDUID(iface)\<close>\<close>

definition macos_restoreDUID :: "string option \<Rightarrow> world \<Rightarrow> (error + restore_result) \<times> world" where
  "macos_restoreDUID iface w =
     (case getOriginalDUID w of
        (None, w1) \<Rightarrow> (Inr No_original, w1)
      | (Some original, w1) \<Rightarrow>
     (case macos_getCurrentDUID w1 of (current, w2) \<Rightarrow>
      if current = Some original then (Inr Not_spoofed, w2)
      else
     (case when_iface iface (macos_set_v6 ''-setv6off'') w2 of
        (Inl e, w3) \<Rightarrow> (Inl e, w3)
      | (Inr u, w3) \<Rightarrow>
     (let w4 = try_both rm_DUID rm_leases w3 in
      case writeFileSync DUID_PATH (Bytes original) w4 of
        (Inl e, w5) \<Rightarrow> (Inl e, w5)
      | (Inr u, w5) \<Rightarrow>
     (case when_iface iface (macos_set_v6 ''-setv6automatic'') w5 of
        (Inl e, w6) \<Rightarrow> (Inl e, w6)
      | (Inr u, w6) \<Rightarrow> (Inr Restored, w6))))))"



section \<open>Windows\<close>

text \<open>
  \<open>output.match(/Dhcpv6DUID\s+REG_BINARY\s+([0-9A-Fa-f]+)/)\<close>: the hex digits of the
  first place where the pattern matches.
\<close>

definition match_reg_binary_here :: "string \<Rightarrow> string option" where
  "match_reg_binary_here s =
     (case strip_prefix ''Dhcpv6DUID'' s of
        None \<Rightarrow> None
      | Some r1 \<Rightarrow>
     (case skip_spaces1 r1 of
        None \<Rightarrow> None
      | Some r2 \<Rightarrow>
     (case strip_prefix ''REG_BINARY'' r2 of
        None \<Rightarrow> None
      | Some r3 \<Rightarrow>
     (case skip_spaces1 r3 of
        None \<Rightarrow> None
      | Some r4 \<Rightarrow>
          (let digits = takeWhile is_hex_digit r4
           in if digits = [] then None else Some digits)))))"

fun match_reg_binary :: "string \<Rightarrow> string option" where
  "match_reg_binary [] = None"
| "match_reg_binary (c # cs) =
     (case match_reg_binary_here (c # cs) of
        Some digits \<Rightarrow> Some digits
      | None \<Rightarrow> match_reg_binary cs)"

text \<open>\<open>windows.getCurrentDUID()\<close>\<close>

definition windows_getCurrentDUID :: "world \<Rightarrow> buffer option \<times> world" where
  "windows_getCurrentDUID w =
     (case execSync reg_query w of
        (Inl e, w1) \<Rightarrow> (None, w1)
      | (Inr out, w1) \<Rightarrow>
          (case match_reg_binary out of
             None \<Rightarrow> (None, w1)
           | Some digits \<Rightarrow> (Some (Buffer_from_hex digits), w1)))"

definition windows_backupOriginal :: "world \<Rightarrow> (error + bool) \<times> world" where
  "windows_backupOriginal w = backupOriginal windows_getCurrentDUID w"

definition netsh_ipv6 :: "string \<Rightarrow> string \<Rightarrow> string" where
  "netsh_ipv6 iface state = ''netsh interface ipv6 set interface '' @ quoted iface @ '' '' @ state"

definition powershell_rebind :: "string \<Rightarrow> string" where
  "powershell_rebind iface =
     ''powershell -Command '' @ [dquote]
     @ ''Disable-NetAdapterBinding -Name '' @ [CHR 0x27] @ iface @ [CHR 0x27]
     @ '' -ComponentID ms_tcpip6; Enable-NetAdapterBinding -Name '' @ [CHR 0x27] @ iface
     @ [CHR 0x27] @ '' -ComponentID ms_tcpip6'' @ [dquote]"

text \<open>
  \<^verbatim>\<open>try { execSync(disable); execSync(enable) }
  catch (e) { try { execSync(powershell) } catch (e2) {} }\<close>
\<close>

definition windows_restart_v6 :: "string \<Rightarrow> world \<Rightarrow> world" where
  "windows_restart_v6 iface w =
     (case execSync (netsh_ipv6 iface ''disabled'') w of
        (Inl e, w1) \<Rightarrow> try_exec (powershell_rebind iface) w1
      | (Inr out, w1) \<Rightarrow>
          (case execSync (netsh_ipv6 iface ''enabled'') w1 of
             (Inl e, w2) \<Rightarrow> try_exec (powershell_rebind iface) w2
           | (Inr out', w2) \<Rightarrow> w2))"

text \<open>\<open>windows.setDUID(duid, iface)\<close>\<close>

definition windows_setDUID :: "buffer \<Rightarrow> string option \<Rightarrow> world \<Rightarrow> (error + bool) \<times> world" where
  "windows_setDUID duid iface w =
     (case windows_backupOriginal w of
        (Inl e, w1) \<Rightarrow> (Inl e, w1)
      | (Inr backed, w1) \<Rightarrow>
          (let duidHex = toUpperCase (toString_hex duid) in
           case execSync (reg_add duidHex) w1 of
             (Inl e, w2) \<Rightarrow> (Inl Failed_to_set_DUID, w2)
           | (Inr out, w2) \<Rightarrow>
               (Inr True, if truthy iface then windows_restart_v6 (the iface) w2 else w2)))"

text \<open>\<open>windows.restoreDUID(iface)\<close>\<close>

definition windows_restoreDUID ::
  "string option \<Rightarrow> world \<Rightarrow> (error + restore_result) \<times> world" where
  "windows_restoreDUID iface w =
     (case getOriginalDUID w of
        (None, w1) \<Rightarrow> (Inr No_original, w1)
      | (Some original, w1) \<Rightarrow>
     (case windows_getCurrentDUID w1 of (current, w2) \<Rightarrow>
      if current = Some original then (Inr Not_spoofed, w2)
      else
        (let duidHex = toUpperCase (toString_hex original) in
         case execSync (reg_add duidHex) w2 of
           (Inl e, w3) \<Rightarrow> (Inl Failed_to_restore_DUID, w3)
         | (Inr out, w3) \<Rightarrow>
             (Inr Restored, if truthy iface then windows_restart_v6 (the iface) w3 else w3))))"


section \<open>Linux\<close>

definition SYSTEMD_DUID_PATH :: string where
  "SYSTEMD_DUID_PATH = ''/etc/systemd/network''"

definition DHCLIENT_CONF :: string where
  "DHCLIENT_CONF = ''/etc/dhcp/dhclient6.conf''"

text \<open>\<open>linux.detectDHCPClient()\<close>: the first of the three probes that succeeds.\<close>

definition detectDHCPClient :: "world \<Rightarrow> string \<times> world" where
  "detectDHCPClient w =
     (case execSync ''systemctl is-active systemd-networkd'' w of
        (Inr out, w1) \<Rightarrow> (''systemd'', w1)
      | (Inl e, w1) \<Rightarrow>
     (case execSync ''pgrep dhclient'' w1 of
        (Inr out, w2) \<Rightarrow> (''dhclient'', w2)
      | (Inl e, w2) \<Rightarrow>
     (case execSync ''pgrep NetworkManager'' w2 of
        (Inr out, w3) \<Rightarrow> (''networkmanager'', w3)
      | (Inl e, w3) \<Rightarrow> (''unknown'', w3))))"

definition is_hex_or_colon :: "char \<Rightarrow> bool" where
  "is_hex_or_colon c = (is_hex_digit c \<or> c = CHR '':'')"

text \<open>\<open>output.match(/DUID:\s*([0-9a-fA-F:]+)/i)\<close>\<close>

definition match_duid_here :: "string \<Rightarrow> string option" where
  "match_duid_here s =
     (case strip_prefix_ci ''DUID:'' s of
        None \<Rightarrow> None
      | Some r1 \<Rightarrow>
          (let v = takeWhile is_hex_or_colon (dropWhile is_space r1)
           in if v = [] then None else Some v))"

fun match_duid :: "string \<Rightarrow> string option" where
  "match_duid [] = None"
| "match_duid (c # cs) =
     (case match_duid_here (c # cs) of Some v \<Rightarrow> Some v | None \<Rightarrow> match_duid cs)"

text \<open>\<open>content.match(/send\s+dhcp6\.client-id\s+([0-9a-fA-F:]+)/i)\<close>\<close>

definition match_client_id_here :: "string \<Rightarrow> string option" where
  "match_client_id_here s =
     (case strip_prefix_ci ''send'' s of
        None \<Rightarrow> None
      | Some r1 \<Rightarrow>
     (case skip_spaces1 r1 of
        None \<Rightarrow> None
      | Some r2 \<Rightarrow>
     (case strip_prefix_ci ''dhcp6.client-id'' r2 of
        None \<Rightarrow> None
      | Some r3 \<Rightarrow>
     (case skip_spaces1 r3 of
        None \<Rightarrow> None
      | Some r4 \<Rightarrow>
          (let v = takeWhile is_hex_or_colon r4
           in if v = [] then None else Some v)))))"

fun match_client_id :: "string \<Rightarrow> string option" where
  "match_client_id [] = None"
| "match_client_id (c # cs) =
     (case match_client_id_here (c # cs) of Some v \<Rightarrow> Some v | None \<Rightarrow> match_client_id cs)"

text \<open>
  The length of the match of \<open>/send\s+dhcp6\.client-id\s+[^;]+;/\<close> at the start of a
  text: after the second literal come a white-space character, at least one more
  character, and everything up to the first semicolon.
\<close>

definition client_id_statement_length :: "string \<Rightarrow> nat option" where
  "client_id_statement_length s =
     (case strip_prefix ''send'' s of
        None \<Rightarrow> None
      | Some r1 \<Rightarrow>
     (case skip_spaces1 r1 of
        None \<Rightarrow> None
      | Some r2 \<Rightarrow>
     (case strip_prefix ''dhcp6.client-id'' r2 of
        None \<Rightarrow> None
      | Some r3 \<Rightarrow>
     (case r3 of
        [] \<Rightarrow> None
      | c # r4 \<Rightarrow>
          if is_space c
             \<and> takeWhile (\<lambda>x. x \<noteq> CHR '';'') r4 \<noteq> []
             \<and> dropWhile (\<lambda>x. x \<noteq> CHR '';'') r4 \<noteq> []
          then Some (length s - length (tl (dropWhile (\<lambda>x. x \<noteq> CHR '';'') r4)))
          else None))))"

text \<open>
  \<open>content.replace(/send\s+dhcp6\.client-id\s+[^;]+;/g, '')\<close>: from left to right,
  every match is dropped; \<open>skip\<close> counts the characters of the current match that are
  still to drop.
\<close>

fun remove_client_id_from :: "nat \<Rightarrow> string \<Rightarrow> string" where
  "remove_client_id_from skip [] = []"
| "remove_client_id_from skip (c # cs) =
     (if skip > 0 then remove_client_id_from (skip - 1) cs
      else
        (case client_id_statement_length (c # cs) of
           Some n \<Rightarrow> remove_client_id_from (n - 1) cs
         | None \<Rightarrow> c # remove_client_id_from 0 cs))"

definition remove_client_id :: "string \<Rightarrow> string" where
  "remove_client_id content = remove_client_id_from 0 content"

text \<open>\<open>linux.getCurrentDUID()\<close>\<close>

definition linux_getCurrentDUID :: "world \<Rightarrow> buffer option \<times> world" where
  "linux_getCurrentDUID w =
     (case detectDHCPClient w of (client, w1) \<Rightarrow>
      if client = ''systemd'' then
        (case execSync ''networkctl status 2>/dev/null | grep -i duid'' w1 of
           (Inl e, w2) \<Rightarrow> (None, w2)
         | (Inr out, w2) \<Rightarrow>
             (case match_duid out of
                None \<Rightarrow> (None, w2)
              | Some v \<Rightarrow> (Some (hexToDuid v), w2)))
      else if client = ''dhclient'' then
        (if existsSync DHCLIENT_CONF w1 then
           (case readFileSync DHCLIENT_CONF w1 of
              Inl e \<Rightarrow> (None, w1)
            | Inr c \<Rightarrow>
                (case match_client_id (as_text c) of
                   None \<Rightarrow> (None, w1)
                 | Some v \<Rightarrow> (Some (hexToDuid v), w1)))
         else (None, w1))
      else if client = ''networkmanager'' then
        (case execSync ''nmcli -g dhcp6.duid connection show'' w1 of
           (Inl e, w2) \<Rightarrow> (None, w2)
         | (Inr out, w2) \<Rightarrow>
             (if trim out \<noteq> [] then (Some (hexToDuid (trim out)), w2) else (None, w2)))
      else (None, w1))"

definition linux_backupOriginal :: "world \<Rightarrow> (error + bool) \<times> world" where
  "linux_backupOriginal w = backupOriginal linux_getCurrentDUID w"

text \<open>The two texts \<open>setDUID\<close> writes for systemd-networkd.\<close>

definition systemd_dhcpv6_section :: "string \<Rightarrow> string" where
  "systemd_dhcpv6_section rawDuid =
     ''[DHCPv6]'' @ [newline] @ ''DUIDType=raw'' @ [newline]
     @ ''DUIDRawData='' @ rawDuid @ [newline]"

definition systemd_match_section :: "string \<Rightarrow> string" where
  "systemd_match_section iface = ''[Match]'' @ [newline] @ ''Name='' @ iface @ [newline] @ [newline]"

text \<open>
  The dhclient branch shared by \<open>setDUID\<close> and \<open>restoreDUID\<close>: the configuration
  file loses its client-id statements and gains the new one; with an interface, the
  lease is released and requested again, failures ignored.
\<close>

definition dhclient_write :: "string \<Rightarrow> string option \<Rightarrow> world \<Rightarrow> (error + unit) \<times> world" where
  "dhclient_write duidHex iface w =
     (let confDir = dirname (os_platform w) DHCLIENT_CONF in
      case (if \<not> existsSync confDir w then mkdirSync confDir w else (Inr (), w)) of
        (Inl e, w1) \<Rightarrow> (Inl e, w1)
      | (Inr u, w1) \<Rightarrow>
     (case (if existsSync DHCLIENT_CONF w1
            then map_sum id (\<lambda>c. remove_client_id (as_text c)) (readFileSync DHCLIENT_CONF w1)
            else Inr []) of
        Inl e \<Rightarrow> (Inl e, w1)
      | Inr content \<Rightarrow>
     (case writeFileSync DHCLIENT_CONF
             (Text (content @ [newline] @ ''send dhcp6.client-id '' @ duidHex @ '';'' @ [newline])) w1 of
        (Inl e, w2) \<Rightarrow> (Inl e, w2)
      | (Inr u, w2) \<Rightarrow>
          (Inr (),
           if truthy iface
           then try_both (''dhclient -6 -r '' @ the iface @ '' 2>/dev/null || true'')
                         (''dhclient -6 '' @ the iface @ '' 2>/dev/null || true'') w2
           else w2))))"

text \<open>
  The NetworkManager branch shared by \<open>setDUID\<close> and \<open>restoreDUID\<close>, all inside one
  \<open>try\<close>: the connection of the interface is looked up and, if it has a name, modified
  and restarted.
\<close>

definition nmcli_modify :: "string \<Rightarrow> string \<Rightarrow> string" where
  "nmcli_modify connName v =
     ''nmcli connection modify '' @ quoted connName @ '' ipv6.dhcp-duid '' @ v"

definition nm_write :: "string \<Rightarrow> string \<Rightarrow> world \<Rightarrow> world" where
  "nm_write duidHex iface w =
     (case execSync (''nmcli -g GENERAL.CONNECTION device show '' @ iface) w of
        (Inl e, w1) \<Rightarrow> w1
      | (Inr out, w1) \<Rightarrow>
          (let connName = trim out in
           if connName \<noteq> [] then
             try_both (nmcli_modify connName duidHex)
               (''nmcli connection down '' @ quoted connName @ '' && nmcli connection up ''
                  @ quoted connName) w1
           else w1))"

text \<open>\<open>linux.setDUID(duid, iface)\<close>\<close>

definition linux_setDUID :: "buffer \<Rightarrow> string option \<Rightarrow> world \<Rightarrow> (error + bool) \<times> world" where
  "linux_setDUID duid iface w =
     (case linux_backupOriginal w of
        (Inl e, w1) \<Rightarrow> (Inl e, w1)
      | (Inr backed, w1) \<Rightarrow>
     (case detectDHCPClient w1 of (client, w2) \<Rightarrow>
     (case formatDUID duid of
        Inl e \<Rightarrow> (Inl e, w2)
      | Inr formatted \<Rightarrow>
     (let duidHex = toLowerCase formatted in
      if client = ''systemd'' then
        (case (if \<not> existsSync SYSTEMD_DUID_PATH w2 then mkdirSync SYSTEMD_DUID_PATH w2
               else (Inr (), w2)) of
           (Inl e, w3) \<Rightarrow> (Inl e, w3)
         | (Inr u, w3) \<Rightarrow>
        (let rawDuid = toString_hex duid in
         case (if truthy iface
               then writeFileSync (SYSTEMD_DUID_PATH @ ''/'' @ the iface @ ''.network'')
                      (Text (systemd_match_section (the iface) @ systemd_dhcpv6_section rawDuid)) w3
               else writeFileSync (SYSTEMD_DUID_PATH @ ''/00-duid.conf'')
                      (Text (systemd_dhcpv6_section rawDuid)) w3) of
           (Inl e, w4) \<Rightarrow> (Inl e, w4)
         | (Inr u, w4) \<Rightarrow> (Inr True, try_exec ''systemctl restart systemd-networkd'' w4)))
      else if client = ''dhclient'' then
        (case dhclient_write duidHex iface w2 of
           (Inl e, w3) \<Rightarrow> (Inl e, w3)
         | (Inr u, w3) \<Rightarrow> (Inr True, w3))
      else if client = ''networkmanager'' then
        (Inr True, if truthy iface then nm_write duidHex (the iface) w2 else w2)
      else (Inl Could_not_detect_DHCP_client, w2)))))"

text \<open>\<open>linux.restoreDUID(iface)\<close>\<close>

definition linux_restoreDUID ::
  "string option \<Rightarrow> world \<Rightarrow> (error + restore_result) \<times> world" where
  "linux_restoreDUID iface w =
     (case getOriginalDUID w of
        (None, w1) \<Rightarrow> (Inr No_original, w1)
      | (Some original, w1) \<Rightarrow>
     (case linux_getCurrentDUID w1 of (current, w2) \<Rightarrow>
      if current = Some original then (Inr Not_spoofed, w2)
      else
     (case detectDHCPClient w2 of (client, w3) \<Rightarrow>
     (case formatDUID original of
        Inl e \<Rightarrow> (Inl e, w3)
      | Inr formatted \<Rightarrow>
     (let duidHex = toLowerCase formatted in
      if client = ''systemd'' then
        (case writeFileSync (SYSTEMD_DUID_PATH @ ''/00-duid.conf'')
                (Text (systemd_dhcpv6_section (toString_hex original))) w3 of
           (Inl e, w4) \<Rightarrow> (Inl e, w4)
         | (Inr u, w4) \<Rightarrow> (Inr Restored, try_exec ''systemctl restart systemd-networkd'' w4))
      else if client = ''dhclient'' then
        (case dhclient_write duidHex iface w3 of
           (Inl e, w4) \<Rightarrow> (Inl e, w4)
         | (Inr u, w4) \<Rightarrow> (Inr Restored, w4))
      else if client = ''networkmanager'' then
        (Inr Restored, if truthy iface then nm_write duidHex (the iface) w3 else w3)
      else (Inr Restored, w3))))))"



section \<open>The cross-platform functions\<close>

text \<open>The argument of \<open>setDUID\<close>: a Buffer or a hex string.\<close>

datatype duid_arg = Duid_buffer buffer | Duid_hex string

text \<open>
  \<open>getPlatformImpl()\<close> picks the platform object by \<open>os.platform()\<close> and throws for any
  other platform; each function below is that choice followed by the call.
\<close>

definition getCurrentDUID :: "world \<Rightarrow> (error + buffer option) \<times> world" where
  "getCurrentDUID w =
     (let pf = os_platform w in
      if pf = ''darwin'' then (case macos_getCurrentDUID w of (r, w1) \<Rightarrow> (Inr r, w1))
      else if pf = ''linux'' then (case linux_getCurrentDUID w of (r, w1) \<Rightarrow> (Inr r, w1))
      else if pf = ''win32'' then (case windows_getCurrentDUID w of (r, w1) \<Rightarrow> (Inr r, w1))
      else (Inl (Unsupported_platform pf), w))"

definition platform_setDUID :: "buffer \<Rightarrow> string option \<Rightarrow> world \<Rightarrow> (error + bool) \<times> world" where
  "platform_setDUID duidBuf iface w =
     (let pf = os_platform w in
      if pf = ''darwin'' then macos_setDUID duidBuf iface w
      else if pf = ''linux'' then linux_setDUID duidBuf iface w
      else if pf = ''win32'' then windows_setDUID duidBuf iface w
      else (Inl (Unsupported_platform pf), w))"

text \<open>
  \<open>setDUID(duid, iface)\<close>:
  \<^verbatim>\<open>const duidBuf = Buffer.isBuffer(duid) ? duid : hexToDuid(duid);
  return getPlatformImpl().setDUID(duidBuf, iface);\<close>
\<close>

definition setDUID :: "duid_arg \<Rightarrow> string option \<Rightarrow> world \<Rightarrow> (error + bool) \<times> world" where
  "setDUID duid iface w =
     (let duidBuf = (case duid of Duid_buffer b \<Rightarrow> b | Duid_hex hex \<Rightarrow> hexToDuid hex)
      in platform_setDUID duidBuf iface w)"

definition restoreDUID :: "string option \<Rightarrow> world \<Rightarrow> (error + restore_result) \<times> world" where
  "restoreDUID iface w =
     (let pf = os_platform w in
      if pf = ''darwin'' then macos_restoreDUID iface w
      else if pf = ''linux'' then linux_restoreDUID iface w
      else if pf = ''win32'' then windows_restoreDUID iface w
      else (Inl (Unsupported_platform pf), w))"


section \<open>Example hosts\<close>

text \<open>
  A host on which nothing exists yet and every command, directory creation and file
  write succeeds, commands printing nothing.
\<close>

definition quiet_host :: "string \<Rightarrow> world" where
  "quiet_host pf =
     \<lparr>os_platform = pf, os_homedir = ''/root'', os_hostname = ''host'',
      env_PROGRAMDATA = None, env_APPDATA = None,
      date_iso = ''2026-01-01T00:00:00.000Z'',
      files = (\<lambda>p. None), dirs = (\<lambda>p. False), reg_duid = None,
      exec_fails = (\<lambda>c. False), exec_stdout = (\<lambda>c. []),
      mkdir_fails = (\<lambda>p. False), write_fails = (\<lambda>p. False), exec_log = []\<rparr>"

text \<open>Three DUIDs of type LL: the host's own, and two to install.\<close>

definition duid_A :: buffer where
  "duid_A = [0x00, 0x03, 0x00, 0x01, 0xAA, 0xAA, 0xAA, 0xAA, 0xAA, 0xAA]"

definition duid_B :: buffer where
  "duid_B = [0x00, 0x03, 0x00, 0x01, 0xBB, 0xBB, 0xBB, 0xBB, 0xBB, 0xBB]"

definition duid_C :: buffer where
  "duid_C = [0x00, 0x03, 0x00, 0x01, 0xCC, 0xCC, 0xCC, 0xCC, 0xCC, 0xCC]"

text \<open>A Mac whose active DUID is \<open>duid_A\<close> and which has never been spoofed.\<close>

definition fresh_mac :: world where
  "fresh_mac =
     (quiet_host ''darwin'')
       \<lparr>files := (\<lambda>p. if p = ''/var/db/dhcpclient/DUID'' then Some (Bytes duid_A) else None),
        dirs := (\<lambda>p. p = ''/var/db/dhcpclient'')\<rparr>"

section \<open>Relations between two states of the host\<close>

text \<open>The second state differs from the first at most in the command log.\<close>

definition same_but_log :: "world \<Rightarrow> world \<Rightarrow> bool" where
  "same_but_log w w' = (w' = w\<lparr>exec_log := exec_log w'\<rparr>)"



text \<open>
  The same Mac, where \<open>networksetup\<close> knows neither \<open>en0\<close> nor \<open>Wi-Fi\<close> as a network
  service (the service of the hardware port \<open>Wi-Fi\<close> has another name), so that
  switching IPv6 off fails for both names.
\<close>

definition hardware_ports :: string where
  "hardware_ports =
     ''Hardware Port: Wi-Fi'' @ [newline] @ ''Device: en0'' @ [newline]
     @ ''Ethernet Address: aa:aa:aa:aa:aa:aa'' @ [newline]"

definition mac_without_service :: world where
  "mac_without_service =
     fresh_mac
       \<lparr>exec_fails := (\<lambda>c. c = networksetup ''-setv6off'' ''en0''
                            \<or> c = networksetup ''-setv6off'' ''Wi-Fi''),
        exec_stdout := (\<lambda>c. if c = ''networksetup -listallhardwareports''
                              then hardware_ports else [])\<rparr>"

text \<open>
  A Windows host whose store holds \<open>duid_A\<close> and whose active DUID is \<open>duid_B\<close>, run
  without the rights to change the registry: \<open>reg add\<close> fails.
\<close>

definition program_data :: string where
  "program_data = ''C:'' @ [backslash] @ ''ProgramData'' @ [backslash] @ ''spoofy''"

definition windows_store_path :: string where
  "windows_store_path = program_data @ [backslash] @ ''duid.original''"

definition record_of_A :: metadata where
  "record_of_A =
     \<lparr>meta_duid = ''00030001aaaaaaaaaaaa'', meta_storedAt = ''2025-12-31T00:00:00.000Z'',
      meta_platform = ''win32'', meta_hostname = ''host''\<rparr>"

definition spoofed_windows :: world where
  "spoofed_windows =
     (quiet_host ''win32'')
       \<lparr>files := (\<lambda>p. if p = windows_store_path then Some (Record_json record_of_A) else None),
        dirs := (\<lambda>p. p = program_data),
        reg_duid := Some ''00030001BBBBBBBBBBBB''\<rparr>"

definition locked_windows :: world where
  "locked_windows = spoofed_windows\<lparr>exec_fails := (\<lambda>c. c = reg_add ''00030001AAAAAAAAAAAA'')\<rparr>"

text \<open>
  The system directory that \<open>getOriginalDUIDPath\<close> probes and tries to create (none on
  macOS and on other platforms).
\<close>

definition system_dir :: "world \<Rightarrow> string" where
  "system_dir w =
     (if os_platform w = ''linux'' then ''/var/lib/spoofy''
      else if os_platform w = ''win32'' then
        path_join (os_platform w)
          [env_or (env_PROGRAMDATA w) (''C:'' @ [backslash] @ ''ProgramData''), ''spoofy'']
      else [])"

text \<open>
  The file system accepts the store's record: the file may be written, and its directory
  is there or may be created.
\<close>

definition store_writable :: "world \<Rightarrow> bool" where
  "store_writable w =
     (case getOriginalDUIDPath w of (p, w1) \<Rightarrow>
        \<not> write_fails w1 p
        \<and> (dirs w1 (dirname (os_platform w1) p)
           \<or> (files w1 (dirname (os_platform w1) p) = None
              \<and> \<not> mkdir_fails w1 (dirname (os_platform w1) p))))"

text \<open>The record that \<open>storeOriginalDUID\<close> writes for a DUID on a host.\<close>

definition record_for :: "buffer \<Rightarrow> world \<Rightarrow> metadata" where
  "record_for duid w =
     \<lparr>meta_duid = toString_hex duid, meta_storedAt = date_iso w,
      meta_platform = os_platform w, meta_hostname = os_hostname w\<rparr>"

section \<open>Properties of the hex codec\<close>

lemma unat_byte_lt: "unat (b::byte) < 256"
  using unsigned_less [of b] by simp

lemma unhex_hexdigit: "n < 16 \<Longrightarrow> unhex (hexdigit n) = Some n"
  by (simp add: unhex_def hexdigit_def Let_def)

lemma unhex_toUpper_hexdigit:
  "n < 16 \<Longrightarrow> unhex (toUpperCase_char (hexdigit n)) = Some n"
  by (simp add: unhex_def hexdigit_def toUpperCase_char_def Let_def)

lemma unhex_toLowerCase_char: "unhex (toLowerCase_char c) = unhex c"
  by (auto simp add: unhex_def toLowerCase_char_def Let_def)

lemma high_nibble_lt: "unat (x::byte) div 16 < 16"
  using unat_byte_lt [of x] by simp

lemma Buffer_from_hex_toString_hex: "Buffer_from_hex (toString_hex b) = b"
  by (induction b) (simp_all add: unhex_hexdigit high_nibble_lt)

lemma Buffer_from_hex_upper: "Buffer_from_hex (toUpperCase (toString_hex b)) = b"
  by (induction b) (simp_all add: toUpperCase_def unhex_toUpper_hexdigit high_nibble_lt)

lemma Buffer_from_hex_toLowerCase: "Buffer_from_hex (toLowerCase s) = Buffer_from_hex s"
  by (induction s rule: Buffer_from_hex.induct)
     (auto simp: toLowerCase_def unhex_toLowerCase_char split: option.splits)

lemma upper_hexdigit: "n < 16 \<Longrightarrow> is_upper_hex_digit (toUpperCase_char (hexdigit n))"
  by (simp add: is_upper_hex_digit_def toUpperCase_char_def hexdigit_def Let_def)

lemma duidToHex_chars: "c \<in> set (duidToHex b) \<Longrightarrow> is_upper_hex_digit c"
  by (induction b)
     (auto simp add: duidToHex_def toUpperCase_def upper_hexdigit high_nibble_lt)

lemma length_toString_hex: "length (toString_hex b) = 2 * length b"
  by (induction b) simp_all

lemma upper_hex_not_separator:
  "is_upper_hex_digit c \<Longrightarrow> \<not> (c = CHR '':'' \<or> is_space c)"
  by (auto simp add: is_upper_hex_digit_def is_space_def Let_def)

lemma strip_duidToHex: "strip_separators (duidToHex b) = duidToHex b"
  unfolding strip_separators_def
  using duidToHex_chars [of _ b] upper_hex_not_separator by (intro filter_True) blast

lemma same_hex_text_decodes:
  assumes "same_hex_text s t"
  shows "hexToDuid s = hexToDuid t"
proof -
  have "hexToDuid s = Buffer_from_hex (toLowerCase (strip_separators s))"
    by (simp add: hexToDuid_def Buffer_from_hex_toLowerCase)
  also have "\<dots> = Buffer_from_hex (toLowerCase (strip_separators t))"
    using assms by (simp add: same_hex_text_def)
  also have "\<dots> = hexToDuid t"
    by (simp add: hexToDuid_def Buffer_from_hex_toLowerCase)
  finally show ?thesis .
qed

text \<open>
  Claim C7. Hex-text round trip: \<open>hexToDuid (duidToHex b) = b\<close> for every byte sequence
  \<open>b\<close> (the non-empty ones among them); \<open>duidToHex\<close> writes two characters per byte, each
  one of \<open>0\<close>..\<open>9\<close>, \<open>A\<close>..\<open>F\<close>, with no punctuation; and two input texts that differ
  only in colons, white space and letter case are parsed by \<open>hexToDuid\<close> to the same bytes.
\<close>

theorem hex_text_round_trip:
  "hexToDuid (duidToHex b) = b
   \<and> length (duidToHex b) = 2 * length b
   \<and> (\<forall>c \<in> set (duidToHex b). is_upper_hex_digit c)
   \<and> (same_hex_text s t \<longrightarrow> hexToDuid s = hexToDuid t)"
proof (intro conjI)
  show "hexToDuid (duidToHex b) = b"
    by (simp add: hexToDuid_def strip_duidToHex) (simp add: duidToHex_def Buffer_from_hex_upper)
  show "length (duidToHex b) = 2 * length b"
    by (simp add: duidToHex_def toUpperCase_def length_toString_hex)
  show "\<forall>c \<in> set (duidToHex b). is_upper_hex_digit c"
    using duidToHex_chars by blast
  show "same_hex_text s t \<longrightarrow> hexToDuid s = hexToDuid t"
    using same_hex_text_decodes by blast
qed

theorem hex_text_round_trip_witness:
  "duidToHex [0x00, 0x03, 0x00, 0x01, 0xAA, 0xBB] = ''00030001AABB''
   \<and> hexToDuid (duidToHex [0x00, 0x03, 0x00, 0x01, 0xAA, 0xBB]) = [0x00, 0x03, 0x00, 0x01, 0xAA, 0xBB]
   \<and> list_all is_upper_hex_digit (duidToHex [0x00, 0x03, 0x00, 0x01, 0xAA, 0xBB])
   \<and> same_hex_text ''00:03:00:01:AA:BB'' ''0003000 1aabb''
   \<and> hexToDuid ''00:03:00:01:AA:BB'' = hexToDuid ''0003000 1aabb''"
proof -
  note round_trip = hex_text_round_trip [of "[0x00, 0x03, 0x00, 0x01, 0xAA, 0xBB]"
        "''00:03:00:01:AA:BB''" "''0003000 1aabb''"]
  have upper: "duidToHex [0x00, 0x03, 0x00, 0x01, 0xAA, 0xBB] = ''00030001AABB''"
    by code_simp
  have same: "same_hex_text ''00:03:00:01:AA:BB'' ''0003000 1aabb''"
    by code_simp
  have decoded: "hexToDuid (duidToHex [0x00, 0x03, 0x00, 0x01, 0xAA, 0xBB])
      = [0x00, 0x03, 0x00, 0x01, 0xAA, 0xBB]"
    using round_trip by (elim conjE)
  have "\<forall>c \<in> set (duidToHex [0x00, 0x03, 0x00, 0x01, 0xAA, 0xBB]). is_upper_hex_digit c"
    using round_trip by (elim conjE)
  then have digits: "list_all is_upper_hex_digit (duidToHex [0x00, 0x03, 0x00, 0x01, 0xAA, 0xBB])"
    by (simp only: list_all_iff)
  have "same_hex_text ''00:03:00:01:AA:BB'' ''0003000 1aabb''
      \<longrightarrow> hexToDuid ''00:03:00:01:AA:BB'' = hexToDuid ''0003000 1aabb''"
    using round_trip by (elim conjE)
  then have equal: "hexToDuid ''00:03:00:01:AA:BB'' = hexToDuid ''0003000 1aabb''"
    using same by (rule mp)
  from upper decoded digits same equal show ?thesis
    by (intro conjI)
qed

section \<open>Properties of the buffer writes and of MAC text\<close>

lemma length_writeUInt8: "writeUInt8 buf v off = Inr b \<Longrightarrow> length b = length buf"
  by (auto simp: writeUInt8_def split: option.splits if_splits)

lemma length_writeUInt16BE: "writeUInt16BE buf x off = Inr b \<Longrightarrow> length b = length buf"
  by (auto simp: writeUInt16BE_def split: if_splits)

lemma length_writeUInt32BE: "writeUInt32BE buf x off = Inr b \<Longrightarrow> length b = length buf"
  by (auto simp: writeUInt32BE_def split: if_splits)

lemma length_write_each: "write_each buf vs off = Inr b \<Longrightarrow> length b = length buf"
proof (induction vs arbitrary: buf off)
  case Nil
  then show ?case by simp
next
  case (Cons v vs)
  then show ?case
    by (auto split: sum.splits dest: length_writeUInt8)
qed

lemma writeUInt8_ok:
  "byte_value v \<Longrightarrow> off < length buf \<Longrightarrow> writeUInt8 buf v off = Inr (buf[off := byte_of v])"
  by (auto simp: writeUInt8_def byte_value_def byte_of_def split: option.splits)

lemma write_each_ok:
  "list_all byte_value vs \<Longrightarrow> off + length vs \<le> length buf \<Longrightarrow>
   write_each buf vs off = Inr (take off buf @ map byte_of vs @ drop (off + length vs) buf)"
proof (induction vs arbitrary: buf off)
  case Nil
  then show ?case by simp
next
  case (Cons v vs)
  from Cons.prems have v: "byte_value v" and vs: "list_all byte_value vs"
    and off: "off < length buf" and rest: "Suc off + length vs \<le> length (buf[off := byte_of v])"
    by simp_all
  have "write_each (buf[off := byte_of v]) vs (Suc off)
      = Inr (take (Suc off) (buf[off := byte_of v]) @ map byte_of vs
             @ drop (Suc off + length vs) (buf[off := byte_of v]))"
    using Cons.IH [OF vs rest] .
  moreover have "take (Suc off) (buf[off := byte_of v]) = take off buf @ [byte_of v]"
    using off by (simp add: take_Suc_conv_app_nth)
  moreover have "drop (Suc off + length vs) (buf[off := byte_of v]) = drop (Suc off + length vs) buf"
    by simp
  ultimately show ?case
    using v off by (simp add: writeUInt8_ok)
qed

lemma version_bits: "((x AND 0x0F) OR 0x40) AND 0xF0 = (0x40::byte)"
  by (simp add: bit.conj_disj_distrib2 and.assoc)

lemma variant_bits: "((x AND 0x3F) OR 0x80) AND 0xC0 = (0x80::byte)"
  by (simp add: bit.conj_disj_distrib2 and.assoc)

lemma alloc6: "Buffer_alloc (6 + n) = [0,0,0,0,0,0] @ replicate n 0"
  by (simp add: Buffer_alloc_def replicate_add numeral_eq_Suc)

lemma generateDUID_EN:
  "generateDUID DUID_EN mac rnd now =
     Inr ([0, 2, 0, 0, 0, 9] @ Buffer_from_hex (filter (\<lambda>c. c \<noteq> CHR '':'') (mac_or_random mac rnd)))"
  by (simp add: generateDUID_def Let_def DUID_EN_def DUID_LLT_def alloc6 writeUInt16BE_def writeUInt32BE_def copy_into_def)

lemma alloc_numeral: "Buffer_alloc 10 = [0,0,0,0,0,0,0,0,0,0]" "Buffer_alloc 14 = [0,0,0,0,0,0,0,0,0,0,0,0,0,0]"
  "Buffer_alloc 18 = [0,0,0,0,0,0,0,0,0,0,0,0,0,0,0,0,0,0]"
  by (simp_all add: Buffer_alloc_def numeral_eq_Suc)

lemma hdr_LL: "writeUInt16BE (Buffer_alloc 10) (int DUID_LL) 0 = Inr [0,3,0,0,0,0,0,0,0,0]"
  by (simp add: alloc_numeral writeUInt16BE_def DUID_LL_def)

lemma split_on_nonempty: "split_on c s \<noteq> []"
  by (induction s) (auto split: list.splits)

lemma join_split_on: "join [c] (split_on c s) = s"
proof (induction s)
  case Nil
  show ?case by simp
next
  case (Cons x xs)
  obtain y ys where ys: "split_on c xs = y # ys"
    using split_on_nonempty [of c xs] by (cases "split_on c xs") auto
  with Cons show ?case
    by (cases ys) auto
qed

lemma split_on_no_separator: "c \<notin> set x \<Longrightarrow> split_on c x = [x]"
  by (induction x) auto

lemma split_on_append:
  "c \<notin> set x \<Longrightarrow> split_on c (x @ c # rest) = x # split_on c rest"
  by (induction x) auto

lemma split_on_join:
  "gs \<noteq> [] \<Longrightarrow> \<forall>g \<in> set gs. c \<notin> set g \<Longrightarrow> split_on c (join [c] gs) = gs"
proof (induction gs)
  case Nil
  then show ?case by simp
next
  case (Cons g gs)
  show ?case
  proof (cases gs)
    case Nil
    with Cons.prems show ?thesis by (simp add: split_on_no_separator)
  next
    case (Cons h hs)
    with Cons.IH Cons.prems show ?thesis by (simp add: split_on_append)
  qed
qed

lemma char_of_48: "char_of (48::nat) = CHR ''0''"
  by code_simp

lemma toString16_small: "n < 16 \<Longrightarrow> toString16 n = [hexdigit n]"
  by (simp add: toString16.simps)

lemma toString16_two: "16 \<le> n \<Longrightarrow> n < 256 \<Longrightarrow> toString16 n = [hexdigit (n div 16), hexdigit (n mod 16)]"
  by (subst toString16.simps) (simp add: toString16_small less_mult_imp_div_less)

lemma pad2_byte:
  "padStart 2 (CHR ''0'') (toString16 (unat (b::byte))) = [hexdigit (unat b div 16), hexdigit (unat b mod 16)]"
proof (cases "unat b < 16")
  case True
  then show ?thesis by (simp add: toString16_small padStart_def hexdigit_def char_of_48)
next
  case False
  then show ?thesis using unat_byte_lt [of b] by (simp add: toString16_two padStart_def)
qed

lemma hex_digit_facts:
  assumes "is_hex_digit a"
  shows "\<not> is_space a" "a \<noteq> CHR '':''" "a \<noteq> CHR ''-''" "a \<noteq> CHR ''+''" "a \<noteq> CHR ''x''" "a \<noteq> CHR ''X''"
    "digit_value a < 16" "hexdigit (digit_value a) = toLowerCase_char a"
  using assms
  by (auto simp add: is_hex_digit_def unhex_def is_space_def digit_value_def Let_def hexdigit_def
      toLowerCase_char_def char_of_eq_iff take_bit_eq_mod split: if_splits)


lemma group_parse:
  assumes "is_hex_digit a" "is_hex_digit b"
  shows "parseInt16 [a, b] = Some (int (16 * digit_value a + digit_value b))"
  using hex_digit_facts(1,3,4) [OF assms(1)] hex_digit_facts(5,6) [OF assms(2)] assms
  by (simp add: parseInt16_def Let_def hex_value_def)

lemma group_byte_value:
  assumes "is_hex_digit a" "is_hex_digit b"
  shows "byte_value (parseInt16 [a, b])"
  using hex_digit_facts(7) [OF assms(1)] hex_digit_facts(7) [OF assms(2)]
  by (simp add: group_parse [OF assms] byte_value_def)

lemma group_render:
  assumes "is_hex_digit a" "is_hex_digit b"
  shows "padStart 2 (CHR ''0'') (toString16 (unat (byte_of (parseInt16 [a, b]))))
         = [toLowerCase_char a, toLowerCase_char b]"
proof -
  let ?n = "16 * digit_value a + digit_value b"
  have a: "digit_value a < 16" and b: "digit_value b < 16"
    using assms hex_digit_facts(7) by blast+
  then have n: "?n < 256" by simp
  have "unat (byte_of (parseInt16 [a, b])) = ?n"
    using n by (simp add: group_parse [OF assms] byte_of_def unat_of_nat take_bit_eq_mod del: of_nat_add of_nat_mult)
  moreover have "?n div 16 = digit_value a" "?n mod 16 = digit_value b"
    using a b by simp_all
  ultimately show ?thesis
    using pad2_byte [of "byte_of (parseInt16 [a, b])"]
    by (simp add: hex_digit_facts(8) [OF assms(1)] hex_digit_facts(8) [OF assms(2)])
qed

lemma two_chars: "length g = 2 \<Longrightarrow> \<exists>a b. g = [a, b]"
  by (cases g; cases "tl g") auto

lemma toLowerCase_join:
  "toLowerCase (join '':'' gs) = join '':'' (map toLowerCase gs)"
proof (induction gs)
  case Nil
  show ?case by (simp add: toLowerCase_def)
next
  case (Cons g gs)
  then show ?case
    by (cases gs) (simp_all add: toLowerCase_def toLowerCase_char_def)
qed

lemma mac_text_groups:
  assumes "is_mac_text m"
  shows "length (split_on (CHR '':'') m) = 6"
    and "list_all byte_value (map parseInt16 (split_on (CHR '':'') m))"
    and "colon_hex (map byte_of (map parseInt16 (split_on (CHR '':'') m))) = toLowerCase m"
proof -
  let ?gs = "split_on (CHR '':'') m"
  have groups: "\<And>g. g \<in> set ?gs \<Longrightarrow> \<exists>a b. g = [a, b] \<and> is_hex_digit a \<and> is_hex_digit b"
  proof -
    fix g assume "g \<in> set ?gs"
    with assms have "length g = 2" and hex: "list_all is_hex_digit g"
      by (auto simp: is_mac_text_def Let_def list_all_iff)
    then obtain a b where "g = [a, b]" using two_chars by blast
    with hex show "\<exists>a b. g = [a, b] \<and> is_hex_digit a \<and> is_hex_digit b" by simp
  qed
  show "length ?gs = 6" using assms by (simp add: is_mac_text_def Let_def)
  show "list_all byte_value (map parseInt16 ?gs)"
    using groups group_byte_value by (fastforce simp: list_all_iff)
  have rendered: "map (\<lambda>g. padStart 2 (CHR ''0'') (toString16 (unat (byte_of (parseInt16 g))))) ?gs
        = map toLowerCase ?gs"
  proof (rule map_cong [OF refl])
    fix g assume "g \<in> set ?gs"
    then obtain a b where "g = [a, b]" "is_hex_digit a" "is_hex_digit b" using groups by blast
    then show "padStart 2 (CHR ''0'') (toString16 (unat (byte_of (parseInt16 g)))) = toLowerCase g"
      by (simp add: group_render toLowerCase_def)
  qed
  have "colon_hex (map byte_of (map parseInt16 ?gs))
      = join '':'' (map (\<lambda>g. padStart 2 (CHR ''0'') (toString16 (unat (byte_of (parseInt16 g))))) ?gs)"
    by (simp add: colon_hex_def comp_def)
  also have "\<dots> = join '':'' (map toLowerCase ?gs)"
    by (simp only: rendered)
  also have "\<dots> = toLowerCase (join '':'' ?gs)" by (simp add: toLowerCase_join)
  also have "\<dots> = toLowerCase m" using join_split_on [of "CHR '':''" m] by simp
  finally show "colon_hex (map byte_of (map parseInt16 ?gs)) = toLowerCase m" .
qed

section \<open>Properties of generating and parsing\<close>

lemma formatDUID_ok: "d \<noteq> [] \<Longrightarrow> \<exists>t. formatDUID d = Inr t"
  by (cases d) (simp_all add: formatDUID_def match_pairs_def)

lemma parseDUID_type:
  assumes "2 \<le> length d"
  shows "\<exists>p. parseDUID d = Inr p \<and> ptype p = Type_code (readUInt16BE d 0)"
proof -
  from assms have "d \<noteq> []" by auto
  then obtain t where "formatDUID d = Inr t" using formatDUID_ok by blast
  with assms show ?thesis
    by (simp add: parseDUID_def Let_def unparsed_def)
qed

lemma parseDUID_LL:
  assumes "10 \<le> length d" "readUInt16BE d 0 = DUID_LL"
  shows "\<exists>p. parseDUID d = Inr p \<and> ptype p = Type_code DUID_LL
            \<and> typeName p = Some ''DUID_LL''
            \<and> lladdr p = Some (colon_hex (slice d 4 10))"
proof -
  from assms have "d \<noteq> []" by auto
  then obtain t where "formatDUID d = Inr t" using formatDUID_ok by blast
  with assms show ?thesis
    by (simp add: parseDUID_def Let_def unparsed_def type_name_def DUID_TYPES_def
        DUID_LL_def DUID_LLT_def DUID_EN_def DUID_UUID_def)
qed

lemma parseDUID_LLT:
  assumes "14 \<le> length d" "readUInt16BE d 0 = DUID_LLT"
  shows "\<exists>p. parseDUID d = Inr p \<and> ptype p = Type_code DUID_LLT
            \<and> typeName p = Some ''DUID_LLT''
            \<and> lladdr p = Some (colon_hex (slice d 8 14))"
proof -
  from assms have "d \<noteq> []" by auto
  then obtain t where "formatDUID d = Inr t" using formatDUID_ok by blast
  with assms show ?thesis
    by (simp add: parseDUID_def Let_def unparsed_def type_name_def DUID_TYPES_def
        DUID_LL_def DUID_LLT_def DUID_EN_def DUID_UUID_def)
qed

lemma generateDUID_LL:
  assumes "list_all byte_value (map parseInt16 (split_on (CHR '':'') (mac_or_random mac rnd)))"
    and "length (split_on (CHR '':'') (mac_or_random mac rnd)) = 6"
  shows "generateDUID DUID_LL mac rnd now
         = Inr ([0, 3, 0, 1] @ map byte_of (map parseInt16 (split_on (CHR '':'') (mac_or_random mac rnd))))"
  using assms
  by (simp add: generateDUID_def Let_def DUID_LL_def DUID_LLT_def DUID_EN_def HW_TYPE_ETHERNET_def
      alloc_numeral writeUInt16BE_def write_each_ok)

lemma generateDUID_LLT:
  assumes "list_all byte_value (map parseInt16 (split_on (CHR '':'') (mac_or_random mac rnd)))"
    and "length (split_on (CHR '':'') (mac_or_random mac rnd)) = 6"
    and "llt_clock_ok now"
  shows "generateDUID DUID_LLT mac rnd now
         = Inr ([0, 1, 0, 1,
                 word_of_int ((now div 1000 - 946684800) div 16777216),
                 word_of_int ((now div 1000 - 946684800) div 65536),
                 word_of_int ((now div 1000 - 946684800) div 256),
                 word_of_int (now div 1000 - 946684800)]
                @ map byte_of (map parseInt16 (split_on (CHR '':'') (mac_or_random mac rnd))))"
  using assms
  by (simp add: generateDUID_def Let_def DUID_LLT_def HW_TYPE_ETHERNET_def llt_clock_ok_def
      alloc_numeral writeUInt16BE_def writeUInt32BE_def write_each_ok)

lemma random_bytes_ok: "list_all byte_value (map (\<lambda>i. Some (uint (rnd (k + i) :: byte))) is)"
proof -
  have "uint (b::byte) \<le> 255" for b
    using uint_bounded [of b] by simp
  then show ?thesis
    by (simp add: list_all_iff byte_value_def)
qed

lemma DUID_types_distinct:
  "DUID_UUID \<noteq> DUID_LLT" "DUID_UUID \<noteq> DUID_EN" "DUID_UUID \<noteq> DUID_LL"
  "DUID_LL \<noteq> DUID_LLT" "DUID_LL \<noteq> DUID_EN" "DUID_EN \<noteq> DUID_LLT"
  by (simp_all add: DUID_UUID_def DUID_LLT_def DUID_EN_def DUID_LL_def)

lemma header_UUID:
  "writeUInt16BE (Buffer_alloc 18) (int DUID_UUID) 0 = Inr [0, 4, 0, 0, 0, 0, 0, 0, 0, 0, 0, 0, 0, 0, 0, 0, 0, 0]"
  by (simp add: alloc_numeral writeUInt16BE_def DUID_UUID_def)

lemma generateDUID_UUID:
  "\<exists>d. generateDUID DUID_UUID mac rnd now = Inr d \<and> length d = 18 \<and> take 2 d = [0, 4]
     \<and> (d ! 8) AND 0xF0 = 0x40 \<and> (d ! 10) AND 0xC0 = 0x80"
proof -
  let ?rs = "map (\<lambda>i. Some (uint (rnd ((if truthy mac then 0 else 6) + i)))) [0..<16]"
  define b where "b = [0, 4] @ map byte_of ?rs"
  have "write_each [0,4,0,0,0,0,0,0,0,0,0,0,0,0,0,0,0,0] ?rs 2 = Inr ([0, 4] @ map byte_of ?rs)"
    using write_each_ok [where off = 2 and buf = "[0,4,0,0,0,0,0,0,0,0,0,0,0,0,0,0,0,0]" and vs = ?rs]
      random_bytes_ok [of rnd "if truthy mac then 0 else 6" "[0..<16]"]
    by simp
  then have written: "write_each [0,4,0,0,0,0,0,0,0,0,0,0,0,0,0,0,0,0] ?rs 2 = Inr b"
    by (simp only: b_def)
  have len: "length b = 18" by (simp add: b_def)
  have hd2: "take 2 b = [0, 4]" by (simp add: b_def)
  have gen: "generateDUID DUID_UUID mac rnd now
      = Inr (b[8 := ((b ! 8) AND 0x0F) OR 0x40,
               10 := ((b[8 := ((b ! 8) AND 0x0F) OR 0x40] ! 10) AND 0x3F) OR 0x80])"
    by (simp only: generateDUID_def Let_def DUID_types_distinct if_False if_True refl
        header_UUID sum.case written)
  show ?thesis
    unfolding gen using len hd2
    by (simp add: version_bits variant_bits)
qed

lemma is_hex_digit_hexdigit: "n < 16 \<Longrightarrow> is_hex_digit (hexdigit n)"
  by (simp add: is_hex_digit_def unhex_hexdigit)

lemma hexdigit_not_colon: "n < 16 \<Longrightarrow> hexdigit n \<noteq> CHR '':''"
  using hex_digit_facts(2) [OF is_hex_digit_hexdigit] by blast

lemma random_mac_is_mac_text: "is_mac_text (generateRandomMAC rnd)"
proof -
  define bytes where "bytes = (map rnd [0..<6])[0 := ((map rnd [0..<6]) ! 0 OR 0x02) AND 0xFE]"
  define groups where "groups = map (\<lambda>b. padStart 2 (CHR ''0'') (toString16 (unat b))) bytes"
  have gen: "generateRandomMAC rnd = join '':'' groups"
    by (simp only: generateRandomMAC_def Let_def groups_def bytes_def)
  have len: "length groups = 6" by (simp add: groups_def bytes_def)
  have each: "\<exists>h l. g = [hexdigit h, hexdigit l] \<and> h < 16 \<and> l < 16" if "g \<in> set groups" for g
  proof -
    from that obtain b :: byte where "g = padStart 2 (CHR ''0'') (toString16 (unat b))"
      unfolding groups_def by auto
    then have "g = [hexdigit (unat b div 16), hexdigit (unat b mod 16)]"
      by (simp add: pad2_byte)
    moreover have "unat b mod 16 < 16" by simp
    ultimately show ?thesis using high_nibble_lt [of b] by blast
  qed
  have nocolon: "\<forall>g \<in> set groups. CHR '':'' \<notin> set g"
    using each hexdigit_not_colon by fastforce
  have "groups \<noteq> []" using len by auto
  then have split: "split_on (CHR '':'') (generateRandomMAC rnd) = groups"
    using split_on_join [OF _ nocolon] gen by simp
  have "list_all (\<lambda>g. length g = 2 \<and> list_all is_hex_digit g) groups"
    using each is_hex_digit_hexdigit by (fastforce simp: list_all_iff)
  with len split show ?thesis
    by (simp add: is_mac_text_def Let_def)
qed

lemma readUInt16BE_header: "readUInt16BE (a # b # rest) 0 = 256 * unat a + unat b"
  by (simp add: readUInt16BE_def slice_def be_value_def)

lemma mac_text_nonempty: "is_mac_text m \<Longrightarrow> m \<noteq> []"
  by (auto simp: is_mac_text_def)

lemma mac_or_random_valid:
  "is_mac_text m \<Longrightarrow> mac_or_random (Some m) rnd = m"
  "mac_or_random None rnd = generateRandomMAC rnd"
  by (auto simp: mac_or_random_def dest: mac_text_nonempty)

text \<open>LL and LLT built from any valid address text decode to the lower-case address.\<close>

lemma LL_round_trip:
  assumes "is_mac_text (mac_or_random mac rnd)"
  shows "\<exists>d p. generateDUID DUID_LL mac rnd now = Inr d \<and> length d = 10 \<and> parseDUID d = Inr p
           \<and> ptype p = Type_code DUID_LL
           \<and> lladdr p = Some (toLowerCase (mac_or_random mac rnd))"
proof -
  let ?bs = "map byte_of (map parseInt16 (split_on (CHR '':'') (mac_or_random mac rnd)))"
  note groups = mac_text_groups [OF assms]
  have gen: "generateDUID DUID_LL mac rnd now = Inr ([0, 3, 0, 1] @ ?bs)"
    using generateDUID_LL [OF groups(2) groups(1)] .
  have len: "length ([0, 3, 0, 1] @ ?bs) = 10" using groups(1) by simp
  have "readUInt16BE ([0, 3, 0, 1] @ ?bs) 0 = DUID_LL"
    by (simp add: readUInt16BE_header DUID_LL_def)
  with len obtain p where p: "parseDUID ([0, 3, 0, 1] @ ?bs) = Inr p" "ptype p = Type_code DUID_LL"
      "lladdr p = Some (colon_hex (slice ([0, 3, 0, 1] @ ?bs) 4 10))"
    using parseDUID_LL [of "[0, 3, 0, 1] @ ?bs"] by auto
  have "slice ([0, 3, 0, 1] @ ?bs) 4 10 = ?bs"
    using groups(1) by (simp add: slice_def)
  with p groups(3) gen len show ?thesis by simp
qed

lemma LLT_round_trip:
  assumes "is_mac_text (mac_or_random mac rnd)" and "llt_clock_ok now"
  shows "\<exists>d p. generateDUID DUID_LLT mac rnd now = Inr d \<and> length d = 14 \<and> parseDUID d = Inr p
           \<and> ptype p = Type_code DUID_LLT
           \<and> lladdr p = Some (toLowerCase (mac_or_random mac rnd))"
proof -
  let ?bs = "map byte_of (map parseInt16 (split_on (CHR '':'') (mac_or_random mac rnd)))"
  let ?x = "now div 1000 - 946684800"
  let ?hd = "[0, 1, 0, 1, word_of_int (?x div 16777216), word_of_int (?x div 65536),
              word_of_int (?x div 256), word_of_int ?x] :: buffer"
  note groups = mac_text_groups [OF assms(1)]
  have gen: "generateDUID DUID_LLT mac rnd now = Inr (?hd @ ?bs)"
    using generateDUID_LLT [OF groups(2) groups(1) assms(2)] by simp
  have len: "length (?hd @ ?bs) = 14" using groups(1) by simp
  have "readUInt16BE (?hd @ ?bs) 0 = DUID_LLT"
    by (simp add: readUInt16BE_header DUID_LLT_def)
  with len obtain p where p: "parseDUID (?hd @ ?bs) = Inr p" "ptype p = Type_code DUID_LLT"
      "lladdr p = Some (colon_hex (slice (?hd @ ?bs) 8 14))"
    using parseDUID_LLT [of "?hd @ ?bs"] by auto
  have "slice (?hd @ ?bs) 8 14 = ?bs"
    using groups(1) by (simp add: slice_def)
  with p groups(3) gen len show ?thesis by simp
qed

lemma EN_type:
  "\<exists>d p. generateDUID DUID_EN mac rnd now = Inr d \<and> parseDUID d = Inr p \<and> ptype p = Type_code DUID_EN"
proof -
  let ?d = "[0, 2, 0, 0, 0, 9] @ Buffer_from_hex (filter (\<lambda>c. c \<noteq> CHR '':'') (mac_or_random mac rnd))"
  have "readUInt16BE ?d 0 = DUID_EN" by (simp add: readUInt16BE_header DUID_EN_def)
  then show ?thesis
    using parseDUID_type [of ?d] by (auto simp add: generateDUID_EN)
qed

lemma UUID_type:
  "\<exists>d p. generateDUID DUID_UUID mac rnd now = Inr d \<and> parseDUID d = Inr p \<and> ptype p = Type_code DUID_UUID"
proof -
  obtain d where d: "generateDUID DUID_UUID mac rnd now = Inr d" "length d = 18" "take 2 d = [0, 4]"
    using generateDUID_UUID by blast
  then have "readUInt16BE d 0 = be_value [0, 4]"
    by (simp only: readUInt16BE_def slice_def drop_0 add_0 diff_zero)
  then have "readUInt16BE d 0 = DUID_UUID"
    by (simp add: be_value_def DUID_UUID_def)
  with d show ?thesis using parseDUID_type [of d] by auto
qed

text \<open>Worked examples, evaluated.\<close>

lemma example_LLT: "generateDUID DUID_LLT (Some ''aa:bb:cc:dd:ee:ff'') zero_random example_now
   = Inr [0x00, 0x01, 0x00, 0x01, 0x2C, 0xE6, 0xAD, 0x80, 0xAA, 0xBB, 0xCC, 0xDD, 0xEE, 0xFF]"
  by code_simp

lemma example_LL: "generateDUID DUID_LL (Some ''aa:bb:cc:dd:ee:ff'') zero_random example_now
   = Inr [0x00, 0x03, 0x00, 0x01, 0xAA, 0xBB, 0xCC, 0xDD, 0xEE, 0xFF]"
  by code_simp

lemma example_LL_upper: "generateDUID DUID_LL (Some ''AA:BB:CC:DD:EE:FF'') zero_random example_now
   = Inr [0x00, 0x03, 0x00, 0x01, 0xAA, 0xBB, 0xCC, 0xDD, 0xEE, 0xFF]"
  by code_simp

lemma example_EN: "generateDUID DUID_EN None zero_random example_now
   = Inr [0x00, 0x02, 0x00, 0x00, 0x00, 0x09, 0x02, 0x00, 0x00, 0x00, 0x00, 0x00]"
  by code_simp

lemma example_UUID: "generateDUID DUID_UUID None zero_random example_now
   = Inr [0x00, 0x04, 0,0,0,0,0,0, 0x40, 0, 0x80, 0,0,0,0,0,0,0]"
  by code_simp

lemma example_parse_LL: "map_sum id lladdr (parseDUID [0x00, 0x03, 0x00, 0x01, 0xAA, 0xBB, 0xCC, 0xDD, 0xEE, 0xFF])
   = Inr (Some ''aa:bb:cc:dd:ee:ff'')"
  by code_simp

lemma example_mac_text: "is_mac_text ''AA:BB:CC:DD:EE:FF''"
  by code_simp

lemma example_clock_ok: "llt_clock_ok example_now"
  by code_simp

section \<open>The codec claims\<close>

text \<open>
  Claim C9. Every UUID-type DUID that \<open>generateDUID\<close> produces has the RFC 4122 version
  and variant bits forced: byte 8 has high nibble 4 and byte 10 has top bits 10, whatever
  the random bytes are. The call always produces one.
\<close>

theorem uuid_version_and_variant_bits:
  "\<exists>d. generateDUID DUID_UUID mac rnd now = Inr d
       \<and> (d ! 8) AND 0xF0 = 0x40 \<and> (d ! 10) AND 0xC0 = 0x80"
  using generateDUID_UUID [of mac rnd now] by blast

text \<open>
  Claim C8. The length of a generated DUID is fixed by its type, with or without an
  explicit MAC: 14 bytes for LLT, 10 for LL, 18 for UUID, and for EN the six header bytes
  followed by the identifier bytes (the hex decoding of the address without its colons).
\<close>

theorem generated_duid_length:
  assumes "generateDUID t mac rnd now = Inr d"
  shows "(t = DUID_LLT \<longrightarrow> length d = 14)
       \<and> (t = DUID_LL \<longrightarrow> length d = 10)
       \<and> (t = DUID_UUID \<longrightarrow> length d = 18)
       \<and> (t = DUID_EN \<longrightarrow>
            d = [0, 2, 0, 0, 0, 9]
                  @ Buffer_from_hex (filter (\<lambda>c. c \<noteq> CHR '':'') (mac_or_random mac rnd))
            \<and> length d
                = 6 + length (Buffer_from_hex (filter (\<lambda>c. c \<noteq> CHR '':'') (mac_or_random mac rnd))))"
proof (intro conjI impI)
  assume "t = DUID_LLT"
  with assms show "length d = 14"
    by (auto simp: generateDUID_def Let_def Buffer_alloc_def split: sum.splits
        dest!: length_writeUInt16BE length_writeUInt32BE length_write_each)
next
  assume "t = DUID_LL"
  with assms show "length d = 10"
    by (auto simp: generateDUID_def Let_def Buffer_alloc_def DUID_types_distinct split: sum.splits
        dest!: length_writeUInt16BE length_write_each)
next
  assume "t = DUID_UUID"
  with assms show "length d = 18"
    using generateDUID_UUID [of mac rnd now] by auto
next
  assume t: "t = DUID_EN"
  with assms show "d = [0, 2, 0, 0, 0, 9]
      @ Buffer_from_hex (filter (\<lambda>c. c \<noteq> CHR '':'') (mac_or_random mac rnd))"
    by (simp add: generateDUID_EN)
  then show "length d
      = 6 + length (Buffer_from_hex (filter (\<lambda>c. c \<noteq> CHR '':'') (mac_or_random mac rnd)))"
    by simp
qed

theorem generated_duid_length_witness:
  "generateDUID DUID_LLT (Some ''aa:bb:cc:dd:ee:ff'') zero_random example_now
     = Inr [0x00, 0x01, 0x00, 0x01, 0x2C, 0xE6, 0xAD, 0x80, 0xAA, 0xBB, 0xCC, 0xDD, 0xEE, 0xFF]
   \<and> length [0x00, 0x01, 0x00, 0x01, 0x2C, 0xE6, 0xAD, 0x80, 0xAA, 0xBB, 0xCC, 0xDD, 0xEE, 0xFF :: byte] = 14
   \<and> generateDUID DUID_EN None zero_random example_now
     = Inr [0x00, 0x02, 0x00, 0x00, 0x00, 0x09, 0x02, 0x00, 0x00, 0x00, 0x00, 0x00]
   \<and> Buffer_from_hex (filter (\<lambda>c. c \<noteq> CHR '':'') (mac_or_random None zero_random))
     = [0x02, 0x00, 0x00, 0x00, 0x00, 0x00]"
proof -
  have "length [0x00, 0x01, 0x00, 0x01, 0x2C, 0xE6, 0xAD, 0x80, 0xAA, 0xBB, 0xCC, 0xDD, 0xEE, 0xFF :: byte] = 14"
    using generated_duid_length [OF example_LLT] by simp
  moreover have "[0x00, 0x02, 0x00, 0x00, 0x00, 0x09, 0x02, 0x00, 0x00, 0x00, 0x00, 0x00 :: byte]
      = [0, 2, 0, 0, 0, 9] @ Buffer_from_hex (filter (\<lambda>c. c \<noteq> CHR '':'') (mac_or_random None zero_random))"
    using generated_duid_length [OF example_EN] by simp
  ultimately show ?thesis
    using example_LLT example_EN by simp
qed

text \<open>
  Claim C6, as amended. For a valid MAC text \<open>m\<close> (six colon-separated groups of two
  hex digits, either case), an LL DUID, and an LLT DUID while the clock's offset from
  2000-01-01 fits 32 bits, is generated and decodes with \<open>lladdr\<close> equal to \<open>m\<close> written in
  lower case. Without an explicit MAC, a DUID of each type EN, LL, UUID, and of type LLT
  under the same condition on the clock, is generated and decodes to its own type.
\<close>

theorem decode_encode_lladdr_lowercase:
  "(is_mac_text m \<and> (t = DUID_LL \<or> t = DUID_LLT \<and> llt_clock_ok now) \<longrightarrow>
      (\<exists>d p. generateDUID t (Some m) rnd now = Inr d \<and> parseDUID d = Inr p
             \<and> lladdr p = Some (toLowerCase m)))
   \<and> ((t = DUID_EN \<or> t = DUID_LL \<or> t = DUID_UUID \<or> t = DUID_LLT \<and> llt_clock_ok now) \<longrightarrow>
      (\<exists>d p. generateDUID t None rnd now = Inr d \<and> parseDUID d = Inr p
             \<and> ptype p = Type_code t))"
proof (intro conjI impI)
  assume h: "is_mac_text m \<and> (t = DUID_LL \<or> t = DUID_LLT \<and> llt_clock_ok now)"
  then have valid: "is_mac_text (mac_or_random (Some m) rnd)" and same: "mac_or_random (Some m) rnd = m"
    by (simp_all add: mac_or_random_valid)
  from h consider "t = DUID_LL" | "t = DUID_LLT" "llt_clock_ok now" by blast
  then show "\<exists>d p. generateDUID t (Some m) rnd now = Inr d \<and> parseDUID d = Inr p
      \<and> lladdr p = Some (toLowerCase m)"
  proof cases
    case 1
    then show ?thesis using LL_round_trip [OF valid, of now] same by auto
  next
    case 2
    then show ?thesis using LLT_round_trip [OF valid, of now] same by auto
  qed
next
  assume h: "t = DUID_EN \<or> t = DUID_LL \<or> t = DUID_UUID \<or> t = DUID_LLT \<and> llt_clock_ok now"
  have valid: "is_mac_text (mac_or_random None rnd)"
    by (simp add: mac_or_random_valid random_mac_is_mac_text)
  from h consider "t = DUID_EN" | "t = DUID_LL" | "t = DUID_UUID" | "t = DUID_LLT" "llt_clock_ok now"
    by blast
  then show "\<exists>d p. generateDUID t None rnd now = Inr d \<and> parseDUID d = Inr p \<and> ptype p = Type_code t"
  proof cases
    case 1
    then show ?thesis using EN_type [of None rnd now] by simp
  next
    case 2
    then show ?thesis using LL_round_trip [OF valid, of now] by auto
  next
    case 3
    then show ?thesis using UUID_type [of None rnd now] by simp
  next
    case 4
    then show ?thesis using LLT_round_trip [OF valid, of now] by auto
  qed
qed

theorem decode_encode_lladdr_lowercase_witness:
  "is_mac_text ''AA:BB:CC:DD:EE:FF'' \<and> llt_clock_ok example_now
   \<and> (\<exists>d p. generateDUID DUID_LLT (Some ''AA:BB:CC:DD:EE:FF'') zero_random example_now = Inr d
          \<and> parseDUID d = Inr p \<and> lladdr p = Some ''aa:bb:cc:dd:ee:ff'')
   \<and> (\<exists>d p. generateDUID DUID_LLT None zero_random example_now = Inr d
          \<and> parseDUID d = Inr p \<and> ptype p = Type_code DUID_LLT)"
proof -
  have lower: "toLowerCase ''AA:BB:CC:DD:EE:FF'' = ''aa:bb:cc:dd:ee:ff''"
    by code_simp
  show ?thesis
    using decode_encode_lladdr_lowercase [of "''AA:BB:CC:DD:EE:FF''" DUID_LLT example_now zero_random]
      example_mac_text example_clock_ok lower
    by simp
qed

text \<open>
  Claim C6 as stated fails: the valid MAC text \<open>AA:BB:CC:DD:EE:FF\<close> is encoded, and the
  decoded \<open>lladdr\<close> is the different string \<open>aa:bb:cc:dd:ee:ff\<close>; and with the clock at the
  Unix epoch, before 2000-01-01, generating an LLT DUID raises a range error instead of
  producing a DUID to decode.
\<close>

theorem decode_encode_uppercase_mac_counterexample:
  "is_mac_text ''AA:BB:CC:DD:EE:FF''
   \<and> generateDUID DUID_LL (Some ''AA:BB:CC:DD:EE:FF'') zero_random example_now
       = Inr [0x00, 0x03, 0x00, 0x01, 0xAA, 0xBB, 0xCC, 0xDD, 0xEE, 0xFF]
   \<and> map_sum id lladdr (parseDUID [0x00, 0x03, 0x00, 0x01, 0xAA, 0xBB, 0xCC, 0xDD, 0xEE, 0xFF])
       = Inr (Some ''aa:bb:cc:dd:ee:ff'')
   \<and> ''aa:bb:cc:dd:ee:ff'' \<noteq> ''AA:BB:CC:DD:EE:FF''
   \<and> generateDUID DUID_LLT None zero_random 0 = Inl ERR_OUT_OF_RANGE"
proof -
  have "generateDUID DUID_LLT None zero_random 0 = Inl ERR_OUT_OF_RANGE"
    by code_simp
  then show ?thesis
    using example_mac_text example_LL_upper example_parse_LL by simp
qed

section \<open>What the commands and the reset leave unchanged\<close>






lemma command_effect_inert: "c \<noteq> CHR ''r'' \<Longrightarrow> command_effect (c # cs) w = w"
  by (simp add: command_effect_def rm_DUID_glob_def rm_leases_def rm_DUID_def reg_delete_def
      reg_add_data_def reg_add_prefix_def)

lemma execSync_inert: "c \<noteq> CHR ''r'' \<Longrightarrow> same_but_log w (snd (execSync (c # cs) w))"
  by (simp add: execSync_def Let_def command_effect_inert same_but_log_def)



lemma networksetup_inert: "same_but_log w (snd (execSync (networksetup flag name) w))"
  by (simp add: networksetup_def execSync_inert)





















lemma getOriginalDUID_world: "snd (getOriginalDUID w) = snd (getOriginalDUIDPath w)"
  by (simp add: getOriginalDUID_def split: prod.splits option.splits content.splits sum.splits)



section \<open>The claims on the store and the platform functions\<close>


section \<open>Where the code departs from the claims\<close>

text \<open>
  Claim C1 fails on macOS. On a Mac whose active DUID is \<open>duid_A\<close>, \<open>backupOriginal\<close>
  alone stores \<open>duid_A\<close>; but \<open>setDUID\<close>, after that backup, runs
  \<open>rm -f /var/db/dhcpclient/DUID*\<close>, whose pattern also matches the store's file
  \<open>/var/db/dhcpclient/DUID.original\<close>. After a successful \<open>setDUID\<close> the store is
  empty, \<open>restoreDUID\<close> answers that there is no original, and a second \<open>setDUID\<close>
  leaves the store empty again.
\<close>

theorem macos_setDUID_deletes_stored_original:
  "fst (getOriginalDUID (snd (macos_backupOriginal fresh_mac))) = Some duid_A
   \<and> fst (setDUID (Duid_buffer duid_B) None fresh_mac) = Inr True
   \<and> exec_log (snd (setDUID (Duid_buffer duid_B) None fresh_mac)) = [rm_DUID_glob, rm_leases]
   \<and> files (snd (setDUID (Duid_buffer duid_B) None fresh_mac)) DUID_PATH = Some (Bytes duid_B)
   \<and> fst (getOriginalDUID (snd (setDUID (Duid_buffer duid_B) None fresh_mac))) = None
   \<and> fst (restoreDUID None (snd (setDUID (Duid_buffer duid_B) None fresh_mac))) = Inr No_original
   \<and> fst (getOriginalDUID
          (snd (setDUID (Duid_buffer duid_C) None
             (snd (setDUID (Duid_buffer duid_B) None fresh_mac))))) = None"
proof (intro conjI)
  show "fst (getOriginalDUID (snd (macos_backupOriginal fresh_mac))) = Some duid_A"
    by code_simp
  show "fst (setDUID (Duid_buffer duid_B) None fresh_mac) = Inr True"
    by code_simp
  show "exec_log (snd (setDUID (Duid_buffer duid_B) None fresh_mac)) = [rm_DUID_glob, rm_leases]"
    by code_simp
  show "files (snd (setDUID (Duid_buffer duid_B) None fresh_mac)) DUID_PATH = Some (Bytes duid_B)"
    by code_simp
  show "fst (getOriginalDUID (snd (setDUID (Duid_buffer duid_B) None fresh_mac))) = None"
    by code_simp
  show "fst (restoreDUID None (snd (setDUID (Duid_buffer duid_B) None fresh_mac))) = Inr No_original"
    by code_simp
  show "fst (getOriginalDUID
          (snd (setDUID (Duid_buffer duid_C) None
             (snd (setDUID (Duid_buffer duid_B) None fresh_mac))))) = None"
    by code_simp
qed

text \<open>
  Claim C5 fails on macOS. With the interface \<open>en0\<close>, \<open>networksetup -setv6off "en0"\<close>
  fails and is caught; the catch block resolves the hardware port \<open>Wi-Fi\<close> and runs
  \<open>networksetup -setv6off "Wi-Fi"\<close> outside any \<open>try\<close>. When that fails too, \<open>setDUID\<close>
  raises the error: the new DUID is not written and the call does not return \<open>true\<close>.
\<close>

theorem macos_setDUID_aborts_when_ipv6_fallback_fails:
  "fst (macos_getHardwarePort ''en0'' mac_without_service) = Some ''Wi-Fi''
   \<and> fst (setDUID (Duid_buffer duid_B) (Some ''en0'') mac_without_service)
       = Inl (Exec_failed (networksetup ''-setv6off'' ''Wi-Fi''))
   \<and> files (snd (setDUID (Duid_buffer duid_B) (Some ''en0'') mac_without_service)) DUID_PATH
       = Some (Bytes duid_A)"
proof (intro conjI)
  show "fst (macos_getHardwarePort ''en0'' mac_without_service) = Some ''Wi-Fi''"
    by code_simp
  show "fst (setDUID (Duid_buffer duid_B) (Some ''en0'') mac_without_service)
       = Inl (Exec_failed (networksetup ''-setv6off'' ''Wi-Fi''))"
    by code_simp
  show "files (snd (setDUID (Duid_buffer duid_B) (Some ''en0'') mac_without_service)) DUID_PATH
       = Some (Bytes duid_A)"
    by code_simp
qed

text \<open>
  Claim C3 as stated fails: on a Windows host whose store holds \<open>duid_A\<close> while the
  active DUID is \<open>duid_B\<close>, and where \<open>reg add\<close> fails, \<open>restoreDUID\<close> returns none of
  the three results. It raises the error "Failed to restore DUID", and the registry
  value is still that of \<open>duid_B\<close>.
\<close>

theorem restoreDUID_raises_counterexample:
  "fst (getOriginalDUID locked_windows) = Some duid_A
   \<and> fst (windows_getCurrentDUID locked_windows) = Some duid_B
   \<and> fst (restoreDUID None locked_windows) = Inl Failed_to_restore_DUID
   \<and> reg_duid (snd (restoreDUID None locked_windows)) = Some ''00030001BBBBBBBBBBBB''"
proof (intro conjI)
  show "fst (getOriginalDUID locked_windows) = Some duid_A"
    by code_simp
  show "fst (windows_getCurrentDUID locked_windows) = Some duid_B"
    by code_simp
  show "fst (restoreDUID None locked_windows) = Inl Failed_to_restore_DUID"
    by code_simp
  show "reg_duid (snd (restoreDUID None locked_windows)) = Some ''00030001BBBBBBBBBBBB''"
    by code_simp
qed

end
